theory Spec2Isabelle
  imports Main "HOL-Library.Char_ord" "HOL-Library.List_Lexorder" "HOL-Library.Multiset"
begin

section \<open>Outcomes, errors and Go maps\<close>

text \<open>
  A Go call either returns or panics.  Errors are ordinary return values: an
  \<open>error\<close> is its message, and \<open>fmt.Errorf("ctx: %w", err)\<close> puts the context in
  front of the message.
\<close>

datatype 'a outcome = Returns 'a | Panics string

type_synonym error = string

text \<open>
  A Go \<open>map[string]T\<close> is a finite map without order.  It is kept as an association
  list sorted by key, which is a normal form of the map and the order in which
  \<open>encoding/json\<close> writes its keys.  \<open>m[k]\<close> is \<open>map_of m k\<close> and \<open>m[k] = v\<close> is
  \<open>upd k v m\<close>.
\<close>

type_synonym 'v gomap = "(string \<times> 'v) list"

fun upd :: "string \<Rightarrow> 'v \<Rightarrow> 'v gomap \<Rightarrow> 'v gomap" where
  "upd k v [] = [(k, v)]"
| "upd k v ((k', v') # m) =
     (if k = k' then (k, v) # m
      else if k < k' then (k, v) # (k', v') # m
      else (k', v') # upd k v m)"

section \<open>Source ranges (hcl.Pos, hcl.Range)\<close>

record pos =
  Line :: int
  Column :: int
  Byte :: int

record rng =
  Start :: pos
  End :: pos

section \<open>Values of the cty library\<close>

text \<open>
  The values a literal expression can hold.  \<open>ListVal\<close> stands for the values of
  non-primitive type, which have no conversion to string.  Numbers are the integral
  ones: the library's numbers are arbitrary-precision floats, and a number with a
  fraction has no counterpart here.
\<close>

datatype cty =
    StringVal string
  | NumberIntVal int
  | BoolVal bool
  | NullVal
  | ListVal "cty list"

fun digits :: "nat \<Rightarrow> string" where
  "digits n = (if n < 10 then [''0123456789'' ! n]
               else digits (n div 10) @ [''0123456789'' ! (n mod 10)])"

declare digits.simps [simp del]

definition FormatInt :: "int \<Rightarrow> string" where
  "FormatInt i = (if i < 0 then ''-'' @ digits (nat (- i)) else digits (nat i))"

text \<open>
  \<open>ctyconvert.Convert(v, cty.String)\<close>: a null stays null (of type string).  The
  text of the error is the library's and plays no role below.
\<close>

fun Convert_String :: "cty \<Rightarrow> error + cty" where
  "Convert_String (StringVal s) = Inr (StringVal s)"
| "Convert_String (NumberIntVal i) = Inr (StringVal (FormatInt i))"
| "Convert_String (BoolVal b) = Inr (StringVal (if b then ''true'' else ''false''))"
| "Convert_String NullVal = Inr NullVal"
| "Convert_String (ListVal vs) = Inl ''string required''"

text \<open>\<open>Value.AsString()\<close> panics on anything but a known, non-null string.\<close>

fun AsString :: "cty \<Rightarrow> string outcome" where
  "AsString (StringVal s) = Returns s"
| "AsString NullVal = Panics ''value is null''"
| "AsString v = Panics ''not a string''"

text \<open>
  \<open>TemplateExpr.Value(nil)\<close> on a template whose parts are literals with the values
  \<open>vs\<close>: every part is converted to a string and the strings are concatenated; a
  null part and a part without conversion are error diagnostics.  The texts of the
  diagnostics stand for the library's, which are longer.
\<close>

fun TemplateExpr_Value :: "cty list \<Rightarrow> error + string" where
  "TemplateExpr_Value [] = Inr []"
| "TemplateExpr_Value (v # vs) =
     (if v = NullVal then Inl ''Invalid template interpolation value: The expression result is null.''
      else case Convert_String v of
        Inl e \<Rightarrow> Inl (''Invalid template interpolation value: '' @ e)
      | Inr sv \<Rightarrow>
          (case AsString sv of
             Panics p \<Rightarrow> Inl p
           | Returns s \<Rightarrow>
               (case TemplateExpr_Value vs of
                  Inl e \<Rightarrow> Inl e
                | Inr r \<Rightarrow> Inr (s @ r))))"

section \<open>The syntax tree (hclsyntax)\<close>

text \<open>
  Every node carries, as its last two fields, what its methods \<open>Range()\<close> and
  \<open>StartRange()\<close> return.  \<open>OtherExpr\<close> is any expression kind the converter has no
  case for (function calls, operators, indexing, ...).
\<close>

datatype expr =
    LiteralValueExpr cty rng rng
  | TemplateExpr "expr list" rng rng
  | TemplateWrapExpr expr rng rng
  | TupleConsExpr "expr list" rng rng
  | ObjectConsExpr "(expr \<times> expr) list" rng rng
  | ObjectConsKeyExpr expr rng rng
  | ScopeTraversalExpr rng rng
  | ConditionalExpr expr expr expr rng rng
  | TemplateJoinExpr expr rng rng
  | ForExpr string string expr expr rng rng
  | OtherExpr rng rng

fun Range :: "expr \<Rightarrow> rng" where
  "Range (LiteralValueExpr v r sr) = r"
| "Range (TemplateExpr parts r sr) = r"
| "Range (TemplateWrapExpr w r sr) = r"
| "Range (TupleConsExpr exprs r sr) = r"
| "Range (ObjectConsExpr items r sr) = r"
| "Range (ObjectConsKeyExpr w r sr) = r"
| "Range (ScopeTraversalExpr r sr) = r"
| "Range (ConditionalExpr cond t f r sr) = r"
| "Range (TemplateJoinExpr tuple r sr) = r"
| "Range (ForExpr keyVar valVar coll val r sr) = r"
| "Range (OtherExpr r sr) = r"

fun StartRange :: "expr \<Rightarrow> rng" where
  "StartRange (LiteralValueExpr v r sr) = sr"
| "StartRange (TemplateExpr parts r sr) = sr"
| "StartRange (TemplateWrapExpr w r sr) = sr"
| "StartRange (TupleConsExpr exprs r sr) = sr"
| "StartRange (ObjectConsExpr items r sr) = sr"
| "StartRange (ObjectConsKeyExpr w r sr) = sr"
| "StartRange (ScopeTraversalExpr r sr) = sr"
| "StartRange (ConditionalExpr cond t f r sr) = sr"
| "StartRange (TemplateJoinExpr tuple r sr) = sr"
| "StartRange (ForExpr keyVar valVar coll val r sr) = sr"
| "StartRange (OtherExpr r sr) = sr"

text \<open>
  Whether \<open>StartRange()\<close> returns at all.  For a template it is
  \<open>Parts[0].StartRange()\<close>, an index out of range when the template has no part
  (the parser always gives a template a part); for a conditional, an object key and
  a template join it is the \<open>StartRange()\<close> of the condition, of the wrapped
  expression and of the tuple.  The other kinds return a stored range.
\<close>

fun StartRange_returns :: "expr \<Rightarrow> bool" where
  "StartRange_returns (LiteralValueExpr v r sr) = True"
| "StartRange_returns (TemplateExpr [] r sr) = False"
| "StartRange_returns (TemplateExpr (part # parts) r sr) = StartRange_returns part"
| "StartRange_returns (TemplateWrapExpr w r sr) = True"
| "StartRange_returns (TupleConsExpr exprs r sr) = True"
| "StartRange_returns (ObjectConsExpr items r sr) = True"
| "StartRange_returns (ObjectConsKeyExpr w r sr) = StartRange_returns w"
| "StartRange_returns (ScopeTraversalExpr r sr) = True"
| "StartRange_returns (ConditionalExpr cond t f r sr) = StartRange_returns cond"
| "StartRange_returns (TemplateJoinExpr tuple r sr) = StartRange_returns tuple"
| "StartRange_returns (ForExpr keyVar valVar coll val r sr) = True"
| "StartRange_returns (OtherExpr r sr) = True"

record attribute =
  Expr :: expr
  NameRange :: rng

text \<open>
  \<open>Body.Attributes\<close> is a Go map from name to attribute; the list gives its entries
  in the order in which one run of \<open>range\<close> visits them.  \<open>Body.Blocks\<close> is a slice.
\<close>

datatype body = Body (Attributes: "(string \<times> attribute) list") (Blocks: "block list") (SrcRange: rng)
  and block = Block (Type: string) (Labels: "string list") (BlockBody: body) (TypeRange: rng)

section \<open>The two trees\<close>

text \<open>
  The value of an \<open>interface{}\<close>, tagged with its dynamic type: \<open>jsonObj\<close> is a
  defined type and \<open>lineObj\<close> is an alias of \<open>map[string]interface{}\<close>, so a type
  assertion tells them apart.
\<close>

datatype dyn =
    GoNil
  | GoInt int
  | Str string
  | SimpleJSONValue cty
  | IntMap "int gomap"
  | JsonObj "dyn gomap"
  | LineObj "dyn gomap"
  | IfaceList "dyn list"
  | JsonObjList "dyn gomap list"
  | LineObjList "dyn gomap list"

record Options =
  Simplify :: bool

record converter =
  bytes :: string
  options :: Options

section \<open>rangeSource and wrapExpr\<close>

text \<open>
  \<open>c.bytes[end]\<close> panics for an index outside the slice, \<open>c.bytes[start:end]\<close> for
  bounds outside it (the slice is taken to be as long as its capacity).
\<close>

definition rangeSource :: "converter \<Rightarrow> rng \<Rightarrow> string outcome" where
  "rangeSource c r =
     (let s = Byte (Start r); e = Byte (End r); n = int (length (bytes c)) in
      if e < n \<and> e < 0 then Panics ''index out of range''
      else
        let e' = (if e < n \<and> bytes c ! nat e = CHR '')'' then e + 1 else e) in
        if 0 \<le> s \<and> s \<le> e' \<and> e' \<le> n
        then Returns (take (nat (e' - s)) (drop (nat s) (bytes c)))
        else Panics ''slice bounds out of range'')"

definition wrapExpr :: "converter \<Rightarrow> expr \<Rightarrow> string outcome" where
  "wrapExpr c ex =
     (case rangeSource c (Range ex) of
        Panics p \<Rightarrow> Panics p
      | Returns s \<Rightarrow> Returns (''${'' @ s @ ''}''))"

section \<open>The expression converter\<close>

text \<open>The \<open>map[string]int\<close> that \<open>convertExpression\<close> fills first.\<close>

definition lineInfo :: "expr \<Rightarrow> int gomap" where
  "lineInfo ex =
     upd ''endIndex'' (Column (End (StartRange ex)))
       (upd ''startIndex'' (Column (Start (StartRange ex)))
         (upd ''line'' (Line (Start (StartRange ex))) []))"

text \<open>\<open>TemplateExpr.IsStringLiteral()\<close>: exactly one part, and it is a literal.\<close>

fun IsStringLiteral :: "expr list \<Rightarrow> bool" where
  "IsStringLiteral [LiteralValueExpr v r sr] = True"
| "IsStringLiteral parts = False"

fun literal_values :: "expr list \<Rightarrow> cty list" where
  "literal_values [] = []"
| "literal_values (LiteralValueExpr v r sr # parts) = v # literal_values parts"
| "literal_values (part # parts) = literal_values parts"

text \<open>
  The loops of the converter, over the function that converts one element.  Each
  returns at the first error, as the source does.
\<close>

text \<open>\<open>convertTemplate\<close>: \<open>for _, part := range t.Parts\<close>, appending to the builder.\<close>

fun template_parts ::
  "(expr \<Rightarrow> (string \<times> error option) outcome) \<Rightarrow> expr list \<Rightarrow> string
     \<Rightarrow> (string \<times> error option) outcome" where
  "template_parts f [] builder = Returns (builder, None)"
| "template_parts f (part # parts) builder =
     (case f part of
        Panics p \<Rightarrow> Panics p
      | Returns (s, Some e) \<Rightarrow> Returns ([], Some e)
      | Returns (s, None) \<Rightarrow> template_parts f parts (builder @ s))"

lemma template_parts_cong [fundef_cong]:
  "parts = parts' \<Longrightarrow> builder = builder' \<Longrightarrow> (\<And>p. p \<in> set parts' \<Longrightarrow> f p = g p)
     \<Longrightarrow> template_parts f parts builder = template_parts g parts' builder'"
  by (induction parts' arbitrary: parts builder builder') (auto split: outcome.splits option.splits)

text \<open>
  \<open>convertExpression\<close>, tuple case: \<open>for _, ex := range value.Exprs\<close>.  The \<open>line\<close>
  declared in the loop body shadows the result parameter: on an error the element's
  line is returned, at the end the one computed on entry.
\<close>

fun tuple_elems ::
  "(expr \<Rightarrow> (dyn \<times> dyn \<times> error option) outcome) \<Rightarrow> expr list \<Rightarrow> dyn list \<Rightarrow> dyn
     \<Rightarrow> (dyn \<times> dyn \<times> error option) outcome" where
  "tuple_elems f [] list line = Returns (IfaceList list, line, None)"
| "tuple_elems f (ex # exprs) list line =
     (case f ex of
        Panics p \<Rightarrow> Panics p
      | Returns (elem, line', Some e) \<Rightarrow> Returns (GoNil, line', Some e)
      | Returns (elem, line', None) \<Rightarrow> tuple_elems f exprs (list @ [elem]) line)"

lemma tuple_elems_cong [fundef_cong]:
  "exprs = exprs' \<Longrightarrow> list = list' \<Longrightarrow> line = line' \<Longrightarrow> (\<And>x. x \<in> set exprs' \<Longrightarrow> f x = g x)
     \<Longrightarrow> tuple_elems f exprs list line = tuple_elems g exprs' list' line'"
  by (induction exprs' arbitrary: exprs list list') (auto split: outcome.splits option.splits)

text \<open>
  \<open>convertExpression\<close>, object case: \<open>for _, item := range value.Items\<close>.  The
  multiple assignment stores the value and the line under the key before the error
  is looked at.
\<close>

fun object_items ::
  "(expr \<Rightarrow> (string \<times> error option) outcome) \<Rightarrow> (expr \<Rightarrow> (dyn \<times> dyn \<times> error option) outcome)
     \<Rightarrow> (expr \<times> expr) list \<Rightarrow> dyn gomap \<Rightarrow> dyn gomap \<Rightarrow> dyn
     \<Rightarrow> (dyn \<times> dyn \<times> error option) outcome" where
  "object_items fk fv [] m l line = Returns (JsonObj m, LineObj l, None)"
| "object_items fk fv ((keyExpr, valueExpr) # items) m l line =
     (case fk keyExpr of
        Panics p \<Rightarrow> Panics p
      | Returns (key, Some e) \<Rightarrow> Returns (GoNil, line, Some e)
      | Returns (key, None) \<Rightarrow>
          (case fv valueExpr of
             Panics p \<Rightarrow> Panics p
           | Returns (v, lv, Some e) \<Rightarrow> Returns (GoNil, line, Some e)
           | Returns (v, lv, None) \<Rightarrow> object_items fk fv items (upd key v m) (upd key lv l) line))"

lemma object_items_cong [fundef_cong]:
  "items = items' \<Longrightarrow> m = m' \<Longrightarrow> l = l' \<Longrightarrow> line = line'
     \<Longrightarrow> (\<And>k v. (k, v) \<in> set items' \<Longrightarrow> fk k = gk k)
     \<Longrightarrow> (\<And>k v. (k, v) \<in> set items' \<Longrightarrow> fv v = gv v)
     \<Longrightarrow> object_items fk fv items m l line = object_items gk gv items' m' l' line'"
proof (induction items' arbitrary: items m m' l l')
  case Nil
  then show ?case by simp
next
  case (Cons item items')
  obtain k v where item: "item = (k, v)" by (cases item)
  have k: "fk k = gk k" and v: "fv v = gv v"
    using Cons.prems(5,6) [of k v] item by simp_all
  have rest: "object_items fk fv items' a b line = object_items gk gv items' a b line'" for a b
    using Cons.IH [of items' a a b b] Cons.prems(4,5,6) by auto
  show ?case
    using Cons.prems(1,2,3,4) item k v rest
    by (simp split: outcome.splits option.splits prod.splits)
qed

lemma size_elem_less: "x \<in> set xs \<Longrightarrow> f x < size_list f xs"
  by (induction xs) auto

text \<open>
  The template reconstructor.  \<open>convertStringPart\<close> asserts that the tuple of a
  \<open>TemplateJoinExpr\<close> is a \<open>ForExpr\<close>.  \<open>convertTemplateConditional\<close> returns
  \<open>"", nil\<close> when the true branch fails and never looks at the error of the false
  branch.
\<close>

function convertTemplate :: "converter \<Rightarrow> expr list \<Rightarrow> (string \<times> error option) outcome"
  and convertStringPart :: "converter \<Rightarrow> expr \<Rightarrow> (string \<times> error option) outcome"
  and convertTemplateConditional ::
    "converter \<Rightarrow> expr \<Rightarrow> expr \<Rightarrow> expr \<Rightarrow> (string \<times> error option) outcome"
  and convertTemplateFor ::
    "converter \<Rightarrow> string \<Rightarrow> string \<Rightarrow> expr \<Rightarrow> expr \<Rightarrow> (string \<times> error option) outcome"
where
  "convertTemplate c parts =
     (if IsStringLiteral parts then
        (case TemplateExpr_Value (literal_values parts) of
           Inl e \<Rightarrow> Returns ([], Some e)
         | Inr s \<Rightarrow> Returns (s, None))
      else template_parts (\<lambda>part. convertStringPart c part) parts [])"

| "convertStringPart c ex =
     (case ex of
        LiteralValueExpr v r sr \<Rightarrow>
          (case Convert_String v of
             Inl e \<Rightarrow> Returns ([], Some e)
           | Inr s \<Rightarrow>
               (case AsString s of
                  Panics p \<Rightarrow> Panics p
                | Returns str \<Rightarrow> Returns (str, None)))
      | TemplateExpr parts r sr \<Rightarrow> convertTemplate c parts
      | TemplateWrapExpr w r sr \<Rightarrow> convertStringPart c w
      | ConditionalExpr cond t f r sr \<Rightarrow> convertTemplateConditional c cond t f
      | TemplateJoinExpr tuple r sr \<Rightarrow>
          (case tuple of
             ForExpr keyVar valVar coll val r' sr' \<Rightarrow> convertTemplateFor c keyVar valVar coll val
           | _ \<Rightarrow> Panics ''interface conversion: Expression is not *hclsyntax.ForExpr'')
      | _ \<Rightarrow>
          (case wrapExpr c ex of
             Panics p \<Rightarrow> Panics p
           | Returns s \<Rightarrow> Returns (s, None)))"

| "convertTemplateConditional c cond t f =
     (case rangeSource c (Range cond) of
        Panics p \<Rightarrow> Panics p
      | Returns condSrc \<Rightarrow>
          (case convertStringPart c t of
             Panics p \<Rightarrow> Panics p
           | Returns (trueResult, Some e) \<Rightarrow> Returns ([], None)
           | Returns (trueResult, None) \<Rightarrow>
               (case convertStringPart c f of
                  Panics p \<Rightarrow> Panics p
                | Returns (falseResult, err) \<Rightarrow>
                    Returns (''%{if '' @ condSrc @ ''}'' @ trueResult
                             @ (if length falseResult > 0 then ''%{else}'' @ falseResult else [])
                             @ ''%{endif}'', None))))"

| "convertTemplateFor c keyVar valVar coll val =
     (case rangeSource c (Range coll) of
        Panics p \<Rightarrow> Panics p
      | Returns collSrc \<Rightarrow>
          (case convertStringPart c val of
             Panics p \<Rightarrow> Panics p
           | Returns (templ, Some e) \<Rightarrow> Returns ([], Some e)
           | Returns (templ, None) \<Rightarrow>
               Returns (''%{for '' @ (if length keyVar > 0 then keyVar @ '', '' else [])
                        @ valVar @ '' in '' @ collSrc @ ''}'' @ templ @ ''%{endfor}'', None)))"

  by pat_completeness auto

termination
proof (relation "measure (\<lambda>x. case x of
          Inl (Inl (c, parts)) \<Rightarrow> 2 * size_list size parts
        | Inl (Inr (c, ex)) \<Rightarrow> 2 * size ex + 1
        | Inr (Inl (c, cond, t, f)) \<Rightarrow> 2 * (size t + size f) + 2
        | Inr (Inr (c, keyVar, valVar, coll, val)) \<Rightarrow> 2 * size val + 2)", goal_cases)
  case 1
  show ?case by simp
next
  case (2 c parts part)
  then show ?case using size_elem_less [of part parts size] by simp
qed simp_all

text \<open>
  \<open>convertKey\<close> first unwraps an \<open>ObjectConsKeyExpr\<close>; a bare scope traversal below
  it is returned as its source text, anything else goes to \<open>convertStringPart\<close>.
\<close>

definition convertKey :: "converter \<Rightarrow> expr \<Rightarrow> (string \<times> error option) outcome" where
  "convertKey c keyExpr =
     (case keyExpr of
        ObjectConsKeyExpr w r sr \<Rightarrow>
          (case w of
             ScopeTraversalExpr r' sr' \<Rightarrow>
               (case rangeSource c (Range w) of
                  Panics p \<Rightarrow> Panics p
                | Returns s \<Rightarrow> Returns (s, None))
           | _ \<Rightarrow> convertStringPart c w)
      | _ \<Rightarrow> convertStringPart c keyExpr)"

text \<open>
  \<open>convertExpression\<close> has the named results \<open>ret\<close>, \<open>line\<close> and \<open>err\<close>; \<open>line\<close> is
  set to the position record on entry, from three calls of \<open>expr.StartRange()\<close>,
  which panic when that method does.  The template case assigns \<open>ret\<close> and \<open>err\<close>
  and returns all three; the template-wrap case returns what the call on the wrapped
  expression returns; the object case returns the map \<open>l\<close> as the line.
\<close>

function convertExpression :: "converter \<Rightarrow> expr \<Rightarrow> (dyn \<times> dyn \<times> error option) outcome" where
  "convertExpression c ex =
     (if \<not> StartRange_returns ex then Panics ''index out of range''
      else
        case ex of
          LiteralValueExpr v r sr \<Rightarrow> Returns (SimpleJSONValue v, IntMap (lineInfo ex), None)
        | TemplateExpr parts r sr \<Rightarrow>
            (case convertTemplate c parts of
               Panics p \<Rightarrow> Panics p
             | Returns (s, err) \<Rightarrow> Returns (Str s, IntMap (lineInfo ex), err))
        | TemplateWrapExpr w r sr \<Rightarrow> convertExpression c w
        | TupleConsExpr exprs r sr \<Rightarrow>
            tuple_elems (\<lambda>x. convertExpression c x) exprs [] (IntMap (lineInfo ex))
        | ObjectConsExpr items r sr \<Rightarrow>
            object_items (convertKey c) (\<lambda>x. convertExpression c x) items [] []
              (IntMap (lineInfo ex))
        | _ \<Rightarrow>
            (case wrapExpr c ex of
               Panics p \<Rightarrow> Panics p
             | Returns s \<Rightarrow> Returns (Str s, IntMap (lineInfo ex), None)))"
  by pat_completeness auto

termination
proof (relation "measure (\<lambda>(c, ex). size ex)", goal_cases)
  case 1
  show ?case by simp
next
  case (2 c ex w r sr)
  then show ?case by simp
next
  case (3 c ex exprs r sr x)
  then show ?case using size_elem_less [of x exprs size] by simp
next
  case (4 c ex items r sr k x)
  then show ?case
    using size_elem_less [of "(k, x)" items "size_prod size size"] by simp
qed

declare convertTemplate.simps [simp del] convertStringPart.simps [simp del]
  convertTemplateConditional.simps [simp del] convertTemplateFor.simps [simp del]
  convertExpression.simps [simp del]

section \<open>The block and label nester\<close>

text \<open>\<open>strings.Join\<close>.\<close>

fun Join :: "string list \<Rightarrow> string \<Rightarrow> string" where
  "Join [] sep = []"
| "Join [x] sep = x"
| "Join (x # y # ys) sep = x @ sep @ Join (y # ys) sep"

text \<open>
  The merge that \<open>convertBlock\<close> writes out twice, for the value map and for the line
  map: a first entry is stored as it is, a second one turns the entry into a
  \<open>[]interface{}\<close> of the two, later ones are appended.
\<close>

definition merge_entry :: "string \<Rightarrow> dyn \<Rightarrow> dyn gomap \<Rightarrow> dyn gomap" where
  "merge_entry key v m =
     (case map_of m key of
        Some current \<Rightarrow>
          (case current of
             IfaceList list \<Rightarrow> upd key (IfaceList (list @ [v])) m
           | _ \<Rightarrow> upd key (IfaceList [current, v]) m)
      | None \<Rightarrow> upd key v m)"

text \<open>
  The result of \<open>convertBody\<close> is \<open>Inl err\<close> for \<open>return nil, nil, err\<close> and
  \<open>Inr (cfg, lcfg)\<close> for \<open>return cfg, lcfg, nil\<close>.

  The end of \<open>convertBlock\<close>, from the call of \<open>convertBody\<close> on: the three
  \<open>__key__\<close> entries are written into the returned line map before the error is
  looked at, and a write into the nil map of a failed \<open>convertBody\<close> panics.
\<close>

definition with_key_range :: "rng \<Rightarrow> dyn gomap \<Rightarrow> dyn gomap" where
  "with_key_range r blcfg =
     upd ''__key__line'' (GoInt (Line (Start r)))
       (upd ''__key__endIndex'' (GoInt (Column (End r)))
         (upd ''__key__startIndex'' (GoInt (Column (Start r))) blcfg))"

definition convertBlock_merge ::
  "block \<Rightarrow> (error + dyn gomap \<times> dyn gomap) outcome \<Rightarrow> string \<Rightarrow> dyn gomap \<Rightarrow> dyn gomap
     \<Rightarrow> (dyn gomap \<times> dyn gomap \<times> error option) outcome" where
  "convertBlock_merge block res key cfg lcfg =
     (case res of
        Panics p \<Rightarrow> Panics p
      | Returns (Inl err) \<Rightarrow> Panics ''assignment to entry in nil map''
      | Returns (Inr (value, blcfg0)) \<Rightarrow>
          (let blcfg = with_key_range (TypeRange block) blcfg0
           in Returns (merge_entry key (JsonObj value) cfg,
                       merge_entry key (LineObj blcfg) lcfg, None)))"

text \<open>
  The label loop of \<open>convertBlock\<close>, followed by its end.  \<open>cfg\<close> and \<open>lcfg\<close> are
  rebound to the map found or created under \<open>key\<close>; the maps are shared, so what is
  written below shows in the map above, which is the write-back here.  The result is
  the state of the two maps passed in, and the error.
\<close>

fun convertBlock_labels ::
  "block \<Rightarrow> (error + dyn gomap \<times> dyn gomap) outcome \<Rightarrow> string \<Rightarrow> string list
     \<Rightarrow> dyn gomap \<Rightarrow> dyn gomap \<Rightarrow> (dyn gomap \<times> dyn gomap \<times> error option) outcome" where
  "convertBlock_labels block res key [] cfg lcfg = convertBlock_merge block res key cfg lcfg"
| "convertBlock_labels block res key (label # labels) cfg lcfg =
     (case map_of cfg key of
        Some x \<Rightarrow>
          (case x of
             JsonObj sub \<Rightarrow>
               (case map_of lcfg key of
                  Some (LineObj lsub) \<Rightarrow>
                    (case convertBlock_labels block res label labels sub lsub of
                       Panics p \<Rightarrow> Panics p
                     | Returns (sub', lsub', err) \<Rightarrow>
                         Returns (upd key (JsonObj sub') cfg, upd key (LineObj lsub') lcfg, err))
                | _ \<Rightarrow>
                    Returns (cfg, lcfg,
                      Some (''unable to convert Block to JSON: '' @ Type block @ ''.''
                            @ Join (Labels block) ''.'')))
           | _ \<Rightarrow>
               Returns (cfg, lcfg,
                 Some (''Unable to convert Block to JSON: '' @ Type block @ ''.''
                       @ Join (Labels block) ''.'')))
      | None \<Rightarrow>
          (case convertBlock_labels block res label labels [] [] of
             Panics p \<Rightarrow> Panics p
           | Returns (obj, lobj, err) \<Rightarrow>
               Returns (upd key (JsonObj obj) cfg, upd key (LineObj lobj) lcfg, err)))"

section \<open>The body converter\<close>

text \<open>
  What the block loop of \<open>convertBody\<close> does with the maps that \<open>convertBlock\<close>
  has filled.  The type assertions are unchecked: one that fails panics.
\<close>

definition merge_block ::
  "string \<Rightarrow> dyn gomap \<Rightarrow> dyn gomap \<Rightarrow> dyn gomap \<Rightarrow> dyn gomap
     \<Rightarrow> (dyn gomap \<times> dyn gomap) outcome" where
  "merge_block type bcfg blcfg cfg lcfg =
     (case map_of bcfg type of
        Some (JsonObj blockConfig) \<Rightarrow>
          (case map_of blcfg type of
             Some (LineObj lineCfg) \<Rightarrow>
               (case map_of cfg type of
                  None \<Rightarrow>
                    Returns (upd type (JsonObjList [blockConfig]) cfg,
                             upd type (LineObjList [lineCfg]) lcfg)
                | Some (JsonObjList list) \<Rightarrow>
                    (case map_of lcfg type of
                       Some (LineObjList lineList) \<Rightarrow>
                         Returns (upd type (JsonObjList (list @ [blockConfig])) cfg,
                                  upd type (LineObjList (lineList @ [lineCfg])) lcfg)
                     | _ \<Rightarrow> Panics ''interface conversion: interface {} is not []lineObj'')
                | Some _ \<Rightarrow> Panics ''interface conversion: interface {} is not []jsonObj'')
           | _ \<Rightarrow> Panics ''interface conversion: interface {} is not lineObj'')
      | _ \<Rightarrow> Panics ''interface conversion: interface {} is not jsonObj'')"

text \<open>
  The block loop of \<open>convertBody\<close>; \<open>f block\<close> is \<open>convertBlock\<close> on two new maps.
\<close>

fun blocks_loop ::
  "(block \<Rightarrow> (dyn gomap \<times> dyn gomap \<times> error option) outcome) \<Rightarrow> block list
     \<Rightarrow> dyn gomap \<Rightarrow> dyn gomap \<Rightarrow> (dyn gomap \<times> dyn gomap \<times> error option) outcome" where
  "blocks_loop f [] cfg lcfg = Returns (cfg, lcfg, None)"
| "blocks_loop f (block # blocks) cfg lcfg =
     (case f block of
        Panics p \<Rightarrow> Panics p
      | Returns (bcfg, blcfg, Some e) \<Rightarrow> Returns (cfg, lcfg, Some (''convert block: '' @ e))
      | Returns (bcfg, blcfg, None) \<Rightarrow>
          (case merge_block (Type block) bcfg blcfg cfg lcfg of
             Panics p \<Rightarrow> Panics p
           | Returns (cfg', lcfg') \<Rightarrow> blocks_loop f blocks cfg' lcfg'))"

lemma blocks_loop_cong [fundef_cong]:
  "blocks = blocks' \<Longrightarrow> cfg = cfg' \<Longrightarrow> lcfg = lcfg' \<Longrightarrow> (\<And>b. b \<in> set blocks' \<Longrightarrow> f b = g b)
     \<Longrightarrow> blocks_loop f blocks cfg lcfg = blocks_loop g blocks' cfg' lcfg'"
proof (induction blocks' arbitrary: blocks cfg cfg' lcfg lcfg')
  case Nil
  then show ?case by simp
next
  case (Cons b blocks')
  have b: "f b = g b" using Cons.prems(4) by simp
  have rest: "blocks_loop f blocks' x y = blocks_loop g blocks' x y" for x y
    using Cons.IH [of blocks' x x y y] Cons.prems(4) by simp
  show ?case
    using Cons.prems(1,2,3) b rest by (simp split: outcome.splits option.splits prod.splits)
qed

text \<open>
  What the attribute loop of \<open>convertBody\<close> does to the line of an attribute: a
  line of type \<open>map[string]int\<close> gets the three entries of the name range.  No line
  has the type \<open>map[string]map[string]interface{}\<close> of the second assertion.
\<close>

definition with_name_range :: "rng \<Rightarrow> dyn \<Rightarrow> dyn" where
  "with_name_range r l =
     (case l of
        IntMap m \<Rightarrow>
          IntMap (upd ''__key__line'' (Line (Start r))
                   (upd ''__key__endIndex'' (Column (End r))
                     (upd ''__key__startIndex'' (Column (Start r)) m)))
      | _ \<Rightarrow> l)"

text \<open>
  The attribute loop of \<open>convertBody\<close>.  The value and the line are stored under the
  key, and the name range is written, before the error is looked at.
\<close>

fun attributes_loop ::
  "converter \<Rightarrow> (string \<times> attribute) list \<Rightarrow> dyn gomap \<Rightarrow> dyn gomap
     \<Rightarrow> (dyn gomap \<times> dyn gomap \<times> error option) outcome" where
  "attributes_loop c [] cfg lcfg = Returns (cfg, lcfg, None)"
| "attributes_loop c ((key, value) # attrs) cfg lcfg =
     (case convertExpression c (Expr value) of
        Panics p \<Rightarrow> Panics p
      | Returns (v, l, err) \<Rightarrow>
          (let cfg' = upd key v cfg;
               lcfg' = upd key (with_name_range (NameRange value) l) lcfg
           in case err of
                Some e \<Rightarrow> Returns (cfg', lcfg', Some (''convert expression: '' @ e))
              | None \<Rightarrow> attributes_loop c attrs cfg' lcfg'))"

function convertBody :: "converter \<Rightarrow> body \<Rightarrow> (error + dyn gomap \<times> dyn gomap) outcome"
  and convertBlock ::
    "converter \<Rightarrow> block \<Rightarrow> dyn gomap \<Rightarrow> dyn gomap
       \<Rightarrow> (dyn gomap \<times> dyn gomap \<times> error option) outcome"
where
  "convertBody c (Body attrs blocks srcRange) =
     (case blocks_loop (\<lambda>block. convertBlock c block [] []) blocks [] [] of
        Panics p \<Rightarrow> Panics p
      | Returns (cfg, lcfg, Some e) \<Rightarrow> Returns (Inl e)
      | Returns (cfg, lcfg, None) \<Rightarrow>
          (case attributes_loop c attrs cfg lcfg of
             Panics p \<Rightarrow> Panics p
           | Returns (cfg', lcfg', Some e) \<Rightarrow> Returns (Inl e)
           | Returns (cfg', lcfg', None) \<Rightarrow>
               Returns (Inr (cfg',
                 upd ''endIndex'' (GoInt (Column (End srcRange)))
                   (upd ''startIndex'' (GoInt (Column (Start srcRange)))
                     (upd ''line'' (GoInt (Line (Start srcRange))) lcfg'))))))"
| "convertBlock c (Block type labels body typeRange) cfg lcfg =
     convertBlock_labels (Block type labels body typeRange) (convertBody c body)
       type labels cfg lcfg"
  by pat_completeness auto

termination
proof (relation "measure (\<lambda>x. case x of
          Inl (c, b) \<Rightarrow> size b | Inr (c, blk, cfg, lcfg) \<Rightarrow> size blk)", goal_cases)
  case 1
  show ?case by simp
next
  case (2 c attrs blocks srcRange block)
  then show ?case using size_elem_less [of block blocks size] by simp
next
  case (3 c type labels body typeRange cfg lcfg)
  show ?case by simp
qed

text \<open>
  \<open>ConvertFile\<close>: the body of the file is asserted to be a \<open>*hclsyntax.Body\<close>
  (\<open>None\<close> is a body of another implementation).
\<close>

record File =
  FileBody :: "body option"
  Bytes :: string

definition ConvertFile :: "File \<Rightarrow> Options \<Rightarrow> (error + dyn gomap \<times> dyn gomap) outcome" where
  "ConvertFile file opts =
     (case FileBody file of
        None \<Rightarrow> Returns (Inl ''convert file body to body type'')
      | Some body \<Rightarrow>
          (case convertBody \<lparr>bytes = Bytes file, options = opts\<rparr> body of
             Panics p \<Rightarrow> Panics p
           | Returns (Inl e) \<Rightarrow> Returns (Inl (''convert body: '' @ e))
           | Returns (Inr r) \<Rightarrow> Returns (Inr r)))"

section \<open>Notions for the statements\<close>

text \<open>
  \<open>span b1 b2\<close> is the range of the bytes \<open>b1\<close> to \<open>b2\<close> of a source of one line
  (columns count from 1), \<open>conv src\<close> the converter that \<open>ConvertFile\<close> builds for
  the source \<open>src\<close>.
\<close>

definition span :: "int \<Rightarrow> int \<Rightarrow> rng" where
  "span b1 b2 = \<lparr>Start = \<lparr>Line = 1, Column = b1 + 1, Byte = b1\<rparr>,
                 End = \<lparr>Line = 1, Column = b2 + 1, Byte = b2\<rparr>\<rparr>"

definition conv :: "string \<Rightarrow> converter" where
  "conv src = \<lparr>bytes = src, options = \<lparr>Simplify = False\<rparr>\<rparr>"

text \<open>
  The kinds of expression for which \<open>convertExpression\<close> returns the \<open>line\<close> it
  computed on entry: all but the template-wrap case and the object case.
\<close>

definition own_line :: "expr \<Rightarrow> bool" where
  "own_line ex =
     (case ex of
        TemplateWrapExpr w r sr \<Rightarrow> False
      | ObjectConsExpr items r sr \<Rightarrow> False
      | _ \<Rightarrow> True)"

text \<open>The default case of \<open>convertExpression\<close>.\<close>

definition wrapped :: "converter \<Rightarrow> expr \<Rightarrow> (dyn \<times> dyn \<times> error option) outcome" where
  "wrapped c ex =
     (if \<not> StartRange_returns ex then Panics ''index out of range''
      else
        case wrapExpr c ex of
          Panics p \<Rightarrow> Panics p
        | Returns s \<Rightarrow> Returns (Str s, IntMap (lineInfo ex), None))"

definition all_literal :: "expr list \<Rightarrow> bool" where
  "all_literal parts =
     list_all (\<lambda>p. case p of LiteralValueExpr v r sr \<Rightarrow> True | _ \<Rightarrow> False) parts"

text \<open>
  The key and the line that \<open>convertExpression\<close> stores for an item of an object
  construction: what \<open>convertKey\<close> returns for the key expression and the line that
  \<open>convertExpression\<close> returns for the value expression.
\<close>

definition item_key :: "converter \<Rightarrow> expr \<Rightarrow> string" where
  "item_key c keyExpr =
     (case convertKey c keyExpr of Returns (key, err) \<Rightarrow> key | Panics p \<Rightarrow> [])"

definition item_line :: "converter \<Rightarrow> expr \<Rightarrow> dyn" where
  "item_line c valueExpr =
     (case convertExpression c valueExpr of Returns (v, l, err) \<Rightarrow> l | Panics p \<Rightarrow> GoNil)"

text \<open>
  The source text of a range, when the range extractor returns one.
\<close>

definition source :: "converter \<Rightarrow> rng \<Rightarrow> string option" where
  "source c r = (case rangeSource c r of Returns s \<Rightarrow> Some s | Panics p \<Rightarrow> None)"

text \<open>
  The reconstruction of a string part in the words of the specification (4.3, and
  4.2 for a template): a literal is its value forced to a string; a template that is
  a constant string is its value, any other template the reconstructions of its
  parts, in order, put together; a template-wrap is its wrapped expression; a
  conditional is \<open>%{if\<close>, the source of the condition and \<open>}\<close>, the true branch,
  \<open>%{else}\<close> and the false branch when that is not empty, and \<open>%{endif}\<close>; a
  template join over a for expression is \<open>%{for\<close>, the key variable and a comma when
  there is one, the value variable, \<open>in\<close>, the source of the collection and \<open>}\<close>,
  the body, and \<open>%{endfor}\<close>; any other expression is its source between \<open>${\<close>
  and \<open>}\<close>.  \<open>None\<close> when a part has no reconstruction.
\<close>

fun concat_parts :: "(expr \<Rightarrow> string option) \<Rightarrow> expr list \<Rightarrow> string option" where
  "concat_parts g [] = Some []"
| "concat_parts g (part # parts) =
     (case g part of
        None \<Rightarrow> None
      | Some s \<Rightarrow> (case concat_parts g parts of None \<Rightarrow> None | Some rest \<Rightarrow> Some (s @ rest)))"

lemma concat_parts_cong [fundef_cong]:
  "parts = parts' \<Longrightarrow> (\<And>p. p \<in> set parts' \<Longrightarrow> g p = h p)
     \<Longrightarrow> concat_parts g parts = concat_parts h parts'"
  by (induction parts' arbitrary: parts) (auto split: option.splits)

function markup :: "converter \<Rightarrow> expr \<Rightarrow> string option" where
  "markup c ex =
     (case ex of
        LiteralValueExpr v r sr \<Rightarrow>
          (case Convert_String v of Inr (StringVal s) \<Rightarrow> Some s | _ \<Rightarrow> None)
      | TemplateExpr parts r sr \<Rightarrow>
          (if IsStringLiteral parts then
             (case TemplateExpr_Value (literal_values parts) of Inl e \<Rightarrow> None | Inr s \<Rightarrow> Some s)
           else concat_parts (\<lambda>part. markup c part) parts)
      | TemplateWrapExpr w r sr \<Rightarrow> markup c w
      | ConditionalExpr cond t f r sr \<Rightarrow>
          (case source c (Range cond) of
             None \<Rightarrow> None
           | Some condSrc \<Rightarrow>
               (case markup c t of
                  None \<Rightarrow> None
                | Some trueText \<Rightarrow>
                    (case markup c f of
                       None \<Rightarrow> None
                     | Some falseText \<Rightarrow>
                         Some (''%{if '' @ condSrc @ ''}'' @ trueText
                               @ (if falseText = [] then [] else ''%{else}'' @ falseText)
                               @ ''%{endif}''))))
      | TemplateJoinExpr tuple r sr \<Rightarrow>
          (case tuple of
             ForExpr keyVar valVar coll val r' sr' \<Rightarrow>
               (case source c (Range coll) of
                  None \<Rightarrow> None
                | Some collSrc \<Rightarrow>
                    (case markup c val of
                       None \<Rightarrow> None
                     | Some body \<Rightarrow>
                         Some (''%{for '' @ (if keyVar = [] then [] else keyVar @ '', '')
                               @ valVar @ '' in '' @ collSrc @ ''}'' @ body @ ''%{endfor}'')))
           | _ \<Rightarrow> None)
      | _ \<Rightarrow>
          (case source c (Range ex) of
             None \<Rightarrow> None
           | Some src \<Rightarrow> Some (''${'' @ src @ ''}'')))"
  by pat_completeness auto

termination
proof (relation "measure (\<lambda>(c, ex). size ex)", goal_cases)
  case 1
  show ?case by simp
next
  case (2 c ex parts r sr part)
  then show ?case using size_elem_less [of part parts size] by simp
qed simp_all

declare markup.simps [simp del]

text \<open>
  The chain of nested objects that the labels of a block open, with the converted
  body at the last label: the words of the specification.  \<open>C\<close> is the type of the
  nested maps, \<open>JsonObj\<close> in the value tree and \<open>LineObj\<close> in the line tree.
\<close>

fun nest_labels :: "(dyn gomap \<Rightarrow> dyn) \<Rightarrow> string list \<Rightarrow> dyn gomap \<Rightarrow> dyn gomap" where
  "nest_labels C [] body = body"
| "nest_labels C (label # labels) body = [(label, C (nest_labels C labels body))]"

text \<open>What a block contributes to the sequence under its type.\<close>

definition block_value :: "converter \<Rightarrow> block \<Rightarrow> dyn gomap" where
  "block_value c b =
     (case convertBody c (BlockBody b) of
        Returns (Inr (value, lvalue)) \<Rightarrow> nest_labels JsonObj (Labels b) value
      | _ \<Rightarrow> [])"

text \<open>The sequence already stored under a key of the value map.\<close>

fun seq_of :: "dyn option \<Rightarrow> dyn gomap list" where
  "seq_of (Some (JsonObjList list)) = list"
| "seq_of x = []"

text \<open>
  Two bodies that differ only in the order in which \<open>range\<close> visits the attributes,
  here and in every block below.
\<close>

function same_body :: "body \<Rightarrow> body \<Rightarrow> bool"
  and same_block :: "block \<Rightarrow> block \<Rightarrow> bool" where
  "same_body (Body attrs blocks r) (Body attrs' blocks' r') =
     (mset attrs = mset attrs' \<and> list_all2 (\<lambda>b b'. same_block b b') blocks blocks' \<and> r = r')"
| "same_block (Block t ls b tr) (Block t' ls' b' tr') =
     (t = t' \<and> ls = ls' \<and> same_body b b' \<and> tr = tr')"
  by pat_completeness auto

termination
proof (relation "measure (\<lambda>x. case x of Inl (b, b') \<Rightarrow> size b | Inr (b, b') \<Rightarrow> size b)", goal_cases)
  case 1
  show ?case by simp
next
  case (2 attrs blocks r attrs' blocks' r' b b')
  then show ?case using size_elem_less [of b blocks size] by simp
next
  case 3
  show ?case by simp
qed

text \<open>The names of the attributes of a Go map are distinct, in every body.\<close>

function distinct_attrs :: "body \<Rightarrow> bool" where
  "distinct_attrs (Body attrs blocks r) =
     (distinct (map fst attrs) \<and> list_all (\<lambda>b. distinct_attrs (BlockBody b)) blocks)"
  by pat_completeness auto

termination
proof (relation "measure size", goal_cases)
  case 1
  show ?case by simp
next
  case (2 attrs blocks r b)
  have "size (BlockBody b) \<le> size b" by (cases b) simp
  with 2 size_elem_less [of b blocks size] show ?case by simp
qed

text \<open>What one round of the attribute loop stores.\<close>

definition attr_store ::
  "converter \<Rightarrow> string \<times> attribute \<Rightarrow> dyn gomap \<times> dyn gomap \<Rightarrow> dyn gomap \<times> dyn gomap" where
  "attr_store c a maps =
     (case convertExpression c (Expr (snd a)) of
        Panics p \<Rightarrow> maps
      | Returns (v, l, err) \<Rightarrow>
          (upd (fst a) v (fst maps),
           upd (fst a) (with_name_range (NameRange (snd a)) l) (snd maps)))"

definition attr_ok :: "converter \<Rightarrow> string \<times> attribute \<Rightarrow> bool" where
  "attr_ok c a = (\<exists>v l. convertExpression c (Expr (snd a)) = Returns (v, l, None))"

text \<open>
  The names of the position entries that \<open>convertBody\<close> and \<open>convertBlock\<close> write
  into a line map.
\<close>

definition position_fields :: "string set" where
  "position_fields = {''line'', ''startIndex'', ''endIndex'',
     ''__key__startIndex'', ''__key__endIndex'', ''__key__line''}"

text \<open>
  The correspondence between a value and its line: a scalar (a literal or a string)
  and a tuple go with one position record, a sequence of blocks with a sequence of
  the same length whose elements correspond, and a map with a map that has the same
  keys, the position entries aside, and corresponding entries under them.
\<close>

function parity :: "dyn \<Rightarrow> dyn \<Rightarrow> bool"
  and parity_map :: "dyn gomap \<Rightarrow> dyn gomap \<Rightarrow> bool" where
  "parity v l =
     (case v of
        SimpleJSONValue x \<Rightarrow> (case l of IntMap r \<Rightarrow> True | _ \<Rightarrow> False)
      | Str s \<Rightarrow> (case l of IntMap r \<Rightarrow> True | _ \<Rightarrow> False)
      | IfaceList xs \<Rightarrow> (case l of IntMap r \<Rightarrow> True | _ \<Rightarrow> False)
      | JsonObj m \<Rightarrow> (case l of LineObj lm \<Rightarrow> parity_map m lm | _ \<Rightarrow> False)
      | JsonObjList ms \<Rightarrow>
          (case l of
             LineObjList ls \<Rightarrow> list_all2 (\<lambda>m lm. parity_map m lm) ms ls
           | _ \<Rightarrow> False)
      | _ \<Rightarrow> False)"
| "parity_map m lm =
     (fst ` set m - position_fields = fst ` set lm - position_fields
      \<and> (\<forall>k \<in> fst ` set m - position_fields.
            case map_of m k of
              None \<Rightarrow> False
            | Some v \<Rightarrow> (case map_of lm k of None \<Rightarrow> False | Some lv \<Rightarrow> parity v lv)))"
  by pat_completeness auto

termination
proof (relation "measure (\<lambda>x. case x of
          Inl (v, l) \<Rightarrow> 2 * size v + 1
        | Inr (m, lm) \<Rightarrow> 2 * size_list (size_prod (\<lambda>k. 0) size) m + 2)", goal_cases)
  case 1
  show ?case by simp
next
  case (2 v l m lm)
  then show ?case by simp
next
  case (3 v l ms ls m lm)
  then show ?case
    using size_elem_less [of m ms "size_list (size_prod (\<lambda>k. 0) size)"] by simp
next
  case (4 m lm k v lv)
  then have "(k, v) \<in> set m" by (auto dest: map_of_SomeD)
  then show ?case
    using size_elem_less [of "(k, v)" m "size_prod (\<lambda>k. 0) size"] by simp
qed

declare parity.simps [simp del] parity_map.simps [simp del]

section \<open>Facts about the maps, the expression converter and the body converter\<close>

lemma map_of_upd [simp]: "map_of (upd k v m) = (map_of m)(k \<mapsto> v)"
  by (induction m) (auto simp: fun_upd_twist)

lemma convertExpression_Literal [simp]:
  "convertExpression c (LiteralValueExpr v r sr) =
     Returns (SimpleJSONValue v, IntMap (lineInfo (LiteralValueExpr v r sr)), None)"
  by (subst convertExpression.simps) simp

lemma convertExpression_Template [simp]:
  "convertExpression c (TemplateExpr parts r sr) =
     (if \<not> StartRange_returns (TemplateExpr parts r sr) then Panics ''index out of range''
      else
        case convertTemplate c parts of
          Panics p \<Rightarrow> Panics p
        | Returns (s, err) \<Rightarrow> Returns (Str s, IntMap (lineInfo (TemplateExpr parts r sr)), err))"
  by (subst convertExpression.simps) simp

lemma convertExpression_TemplateWrap [simp]:
  "convertExpression c (TemplateWrapExpr w r sr) = convertExpression c w"
  by (subst convertExpression.simps) simp

lemma convertExpression_Tuple [simp]:
  "convertExpression c (TupleConsExpr exprs r sr) =
     tuple_elems (convertExpression c) exprs [] (IntMap (lineInfo (TupleConsExpr exprs r sr)))"
  by (subst convertExpression.simps) simp

lemma convertExpression_Object [simp]:
  "convertExpression c (ObjectConsExpr items r sr) =
     object_items (convertKey c) (convertExpression c) items [] []
       (IntMap (lineInfo (ObjectConsExpr items r sr)))"
  by (subst convertExpression.simps) simp

lemma convertExpression_default [simp]:
  "convertExpression c (ObjectConsKeyExpr w r sr) = wrapped c (ObjectConsKeyExpr w r sr)"
  "convertExpression c (ScopeTraversalExpr r sr) = wrapped c (ScopeTraversalExpr r sr)"
  "convertExpression c (ConditionalExpr cond t f r sr) = wrapped c (ConditionalExpr cond t f r sr)"
  "convertExpression c (TemplateJoinExpr tuple r sr) = wrapped c (TemplateJoinExpr tuple r sr)"
  "convertExpression c (ForExpr keyVar valVar coll val r sr) =
     wrapped c (ForExpr keyVar valVar coll val r sr)"
  "convertExpression c (OtherExpr r sr) = wrapped c (OtherExpr r sr)"
  by (subst convertExpression.simps, simp add: wrapped_def)+

lemma tuple_elems_line:
  "tuple_elems f exprs list line = Returns (ret, line', None) \<Longrightarrow> line' = line"
  by (induction exprs arbitrary: list) (auto split: outcome.splits option.splits)

lemma object_items_line:
  "object_items fk fv items m l line = Returns (ret, line', None) \<Longrightarrow> \<exists>l'. line' = LineObj l'"
  by (induction items arbitrary: m l) (auto split: outcome.splits option.splits)

lemma lineInfo_fields:
  "map_of (lineInfo ex) ''line'' = Some (Line (Start (StartRange ex)))"
  "map_of (lineInfo ex) ''startIndex'' = Some (Column (Start (StartRange ex)))"
  "map_of (lineInfo ex) ''endIndex'' = Some (Column (End (StartRange ex)))"
  by (simp_all add: lineInfo_def)

lemma own_line_result:
  assumes "convertExpression c ex = Returns (ret, line, None)" and "own_line ex"
  shows "line = IntMap (lineInfo ex)"
proof (cases ex)
  case (TemplateExpr parts r sr)
  then show ?thesis using assms(1) by (auto split: outcome.splits if_splits)
next
  case (TupleConsExpr exprs r sr)
  then show ?thesis using assms(1) tuple_elems_line by auto
qed (use assms in \<open>auto simp: own_line_def wrapped_def split: outcome.splits if_splits\<close>)

lemma convertStringPart_Literal [simp]:
  "convertStringPart c (LiteralValueExpr v r sr) =
     (case Convert_String v of
        Inl e \<Rightarrow> Returns ([], Some e)
      | Inr s \<Rightarrow>
          (case AsString s of
             Panics p \<Rightarrow> Panics p
           | Returns str \<Rightarrow> Returns (str, None)))"
  by (subst convertStringPart.simps) simp

lemma convertStringPart_default [simp]:
  "convertStringPart c (ScopeTraversalExpr r sr) =
     (case wrapExpr c (ScopeTraversalExpr r sr) of
        Panics p \<Rightarrow> Panics p | Returns s \<Rightarrow> Returns (s, None))"
  "convertStringPart c (OtherExpr r sr) =
     (case wrapExpr c (OtherExpr r sr) of
        Panics p \<Rightarrow> Panics p | Returns s \<Rightarrow> Returns (s, None))"
  by (subst convertStringPart.simps, simp)+

lemma template_parts_literals:
  "all_literal parts \<Longrightarrow> TemplateExpr_Value (literal_values parts) = Inr s
     \<Longrightarrow> template_parts (convertStringPart c) parts b = Returns (b @ s, None)"
proof (induction parts arbitrary: b s)
  case Nil
  then show ?case by simp
next
  case (Cons p parts)
  from Cons.prems(1) obtain v r sr where p: "p = LiteralValueExpr v r sr"
    by (cases p) (simp_all add: all_literal_def)
  from Cons.prems(1) have rest: "all_literal parts" by (simp add: all_literal_def)
  from Cons.prems(2) p obtain sv s1 s2 where
    sv: "Convert_String v = Inr sv" and s1: "AsString sv = Returns s1"
    and s2: "TemplateExpr_Value (literal_values parts) = Inr s2" and s: "s = s1 @ s2"
    by (auto split: if_splits sum.splits outcome.splits)
  show ?case
    using p sv s1 s Cons.IH [OF rest s2, of "b @ s1"] by simp
qed

lemma convertStringPart_Template:
  "convertStringPart c (TemplateExpr parts r sr) = convertTemplate c parts"
  by (subst convertStringPart.simps) simp

lemma convertStringPart_TemplateWrap:
  "convertStringPart c (TemplateWrapExpr w r sr) = convertStringPart c w"
  by (subst convertStringPart.simps) simp

lemma convertStringPart_Conditional:
  "convertStringPart c (ConditionalExpr cond t f r sr) = convertTemplateConditional c cond t f"
  by (subst convertStringPart.simps) simp

lemma convertStringPart_TemplateJoin:
  "convertStringPart c (TemplateJoinExpr (ForExpr keyVar valVar coll val r' sr') r sr)
     = convertTemplateFor c keyVar valVar coll val"
  by (subst convertStringPart.simps) simp

lemma convertStringPart_wrapped:
  "convertStringPart c (TupleConsExpr exprs r sr) =
     (case wrapExpr c (TupleConsExpr exprs r sr) of
        Panics p \<Rightarrow> Panics p | Returns s \<Rightarrow> Returns (s, None))"
  "convertStringPart c (ObjectConsExpr items r sr) =
     (case wrapExpr c (ObjectConsExpr items r sr) of
        Panics p \<Rightarrow> Panics p | Returns s \<Rightarrow> Returns (s, None))"
  "convertStringPart c (ObjectConsKeyExpr w r sr) =
     (case wrapExpr c (ObjectConsKeyExpr w r sr) of
        Panics p \<Rightarrow> Panics p | Returns s \<Rightarrow> Returns (s, None))"
  "convertStringPart c (ForExpr keyVar valVar coll val r sr) =
     (case wrapExpr c (ForExpr keyVar valVar coll val r sr) of
        Panics p \<Rightarrow> Panics p | Returns s \<Rightarrow> Returns (s, None))"
  by (subst convertStringPart.simps, simp)+

lemma source_Some: "source c r = Some s \<longleftrightarrow> rangeSource c r = Returns s"
  by (simp add: source_def split: outcome.splits)

lemma template_parts_markup:
  "\<forall>p \<in> set parts. \<forall>s. g p = Some s \<longrightarrow> f p = Returns (s, None)
     \<Longrightarrow> concat_parts g parts = Some s
     \<Longrightarrow> template_parts f parts b = Returns (b @ s, None)"
proof (induction parts arbitrary: b s)
  case Nil
  then show ?case by simp
next
  case (Cons p parts)
  from Cons.prems(2) obtain s1 s2 where
    s1: "g p = Some s1" and s2: "concat_parts g parts = Some s2" and s: "s = s1 @ s2"
    by (auto split: option.splits)
  have "f p = Returns (s1, None)" using Cons.prems(1) s1 by simp
  then show ?case
    using Cons.IH [OF _ s2, of "b @ s1"] Cons.prems(1) s by simp
qed

lemma markup_sound:
  "markup c ex = Some s \<Longrightarrow> convertStringPart c ex = Returns (s, None)"
proof (induction c ex arbitrary: s rule: markup.induct)
  case (1 c ex)
  note m = "1.prems" [unfolded markup.simps [of c ex]]
  show ?case
  proof (cases ex)
    case (LiteralValueExpr v r sr)
    then show ?thesis
      using m by (auto split: sum.splits cty.splits)
  next
    case (TemplateExpr parts r sr)
    show ?thesis
    proof (cases "IsStringLiteral parts")
      case True
      then show ?thesis
        using m TemplateExpr
        by (auto simp: convertStringPart_Template convertTemplate.simps split: sum.splits)
    next
      case False
      have ih: "\<forall>p \<in> set parts. \<forall>s. markup c p = Some s \<longrightarrow> convertStringPart c p = Returns (s, None)"
        using "1.IH"(1) [OF TemplateExpr False] by blast
      have "concat_parts (markup c) parts = Some s"
        using m TemplateExpr False by simp
      from template_parts_markup [OF ih this, of "[]"] show ?thesis
        using TemplateExpr False by (simp add: convertStringPart_Template convertTemplate.simps)
    qed
  next
    case (TemplateWrapExpr w r sr)
    then show ?thesis
      using m "1.IH"(2) [OF TemplateWrapExpr] by (simp add: convertStringPart_TemplateWrap)
  next
    case (ConditionalExpr cond t f r sr)
    from m ConditionalExpr obtain condSrc trueText falseText where
      cs: "source c (Range cond) = Some condSrc"
      and tt: "markup c t = Some trueText" and ft: "markup c f = Some falseText"
      and s: "s = ''%{if '' @ condSrc @ ''}'' @ trueText
                 @ (if falseText = [] then [] else ''%{else}'' @ falseText) @ ''%{endif}''"
      by (auto split: option.splits)
    have t: "convertStringPart c t = Returns (trueText, None)"
      using "1.IH"(3) [OF ConditionalExpr cs tt] .
    have f: "convertStringPart c f = Returns (falseText, None)"
      using "1.IH"(4) [OF ConditionalExpr cs tt ft] .
    show ?thesis
      using ConditionalExpr cs t f s
      by (simp add: convertStringPart_Conditional convertTemplateConditional.simps source_Some)
  next
    case (TemplateJoinExpr tuple r sr)
    from m TemplateJoinExpr obtain keyVar valVar coll val r' sr' collSrc body where
      tu: "tuple = ForExpr keyVar valVar coll val r' sr'"
      and cs: "source c (Range coll) = Some collSrc" and b: "markup c val = Some body"
      and s: "s = ''%{for '' @ (if keyVar = [] then [] else keyVar @ '', '')
                 @ valVar @ '' in '' @ collSrc @ ''}'' @ body @ ''%{endfor}''"
      by (auto split: option.splits expr.splits)
    have v: "convertStringPart c val = Returns (body, None)"
      using "1.IH"(5) [OF TemplateJoinExpr tu cs b] .
    show ?thesis
      using TemplateJoinExpr tu cs v s
      by (simp add: convertStringPart_TemplateJoin convertTemplateFor.simps source_Some)
  qed (use m in \<open>auto simp: convertStringPart_wrapped wrapExpr_def source_def
         split: option.splits outcome.splits\<close>)
qed

lemma all_literal_StartRange:
  "all_literal parts \<Longrightarrow> parts \<noteq> [] \<Longrightarrow> StartRange_returns (TemplateExpr parts r sr)"
  by (cases parts; cases "hd parts") (simp_all add: all_literal_def)

lemma object_items_entries:
  "object_items (convertKey c) (convertExpression c) items m l line = Returns (ret, line', None)
     \<Longrightarrow> \<exists>l'. line' = LineObj l'
           \<and> map_of l' = map_of l
                ++ map_of (rev (map (\<lambda>(k, v). (item_key c k, item_line c v)) items))"
proof (induction items arbitrary: m l)
  case Nil
  then show ?case by auto
next
  case (Cons item items)
  obtain keyExpr valueExpr where item: "item = (keyExpr, valueExpr)" by (cases item)
  from Cons.prems item obtain key v lv where
    k: "convertKey c keyExpr = Returns (key, None)"
    and e: "convertExpression c valueExpr = Returns (v, lv, None)"
    and rest: "object_items (convertKey c) (convertExpression c) items (upd key v m) (upd key lv l) line
                 = Returns (ret, line', None)"
    by (auto split: outcome.splits option.splits)
  from Cons.IH [OF rest] obtain l' where
    l': "line' = LineObj l'"
    and ml: "map_of l' = map_of (upd key lv l)
               ++ map_of (rev (map (\<lambda>(k, v). (item_key c k, item_line c v)) items))"
    by blast
  have ik: "item_key c keyExpr = key" using k by (simp add: item_key_def)
  have il: "item_line c valueExpr = lv" using e by (simp add: item_line_def)
  have "map_of l' = map_of l
          ++ map_of (rev (map (\<lambda>(k, v). (item_key c k, item_line c v)) (item # items)))"
    unfolding ml using item ik il by (simp add: map_add_upd_left map_add_assoc [symmetric])
  then show ?case using l' by blast
qed

lemma object_items_keys:
  assumes "map_of l' = map_of (rev (map (\<lambda>(k, v). (item_key c k, item_line c v)) items))"
  shows "fst ` set l' = item_key c ` fst ` set items"
proof -
  have "fst ` set l' = dom (map_of l')" by (simp add: dom_map_of_conv_image_fst)
  also have "\<dots> = fst ` set (rev (map (\<lambda>(k, v). (item_key c k, item_line c v)) items))"
    unfolding assms by (simp only: dom_map_of_conv_image_fst)
  also have "\<dots> = item_key c ` fst ` set items"
    by (force simp: image_iff)
  finally show ?thesis .
qed

lemma convertBlock_labels_fresh:
  "convertBlock_labels blk res key labels [] [] =
     (case res of
        Panics p \<Rightarrow> Panics p
      | Returns (Inl e) \<Rightarrow> Panics ''assignment to entry in nil map''
      | Returns (Inr (value, bl)) \<Rightarrow>
          Returns ([(key, JsonObj (nest_labels JsonObj labels value))],
                   [(key, LineObj (nest_labels LineObj labels (with_key_range (TypeRange blk) bl)))],
                   None))"
  by (induction labels arbitrary: key)
     (auto simp: convertBlock_merge_def merge_entry_def split: outcome.splits sum.splits)

lemma convertBlock_fresh:
  assumes "convertBlock c b [] [] = Returns (bcfg, blcfg, None)"
  shows "\<exists>value lvalue. convertBody c (BlockBody b) = Returns (Inr (value, lvalue))
           \<and> bcfg = [(Type b, JsonObj (nest_labels JsonObj (Labels b) value))]
           \<and> blcfg = [(Type b, LineObj (nest_labels LineObj (Labels b)
                                          (with_key_range (TypeRange b) lvalue)))]"
  using assms
  by (cases b) (auto simp: convertBlock_labels_fresh split: outcome.splits sum.splits)

lemma convertBlock_fresh_value:
  "convertBlock c b [] [] = Returns (bcfg, blcfg, None)
     \<Longrightarrow> map_of bcfg (Type b) = Some (JsonObj (block_value c b))"
  using convertBlock_fresh [of c b bcfg blcfg] by (auto simp: block_value_def)

lemma merge_block_value:
  assumes "merge_block ty bcfg blcfg cfg lcfg = Returns (cfg1, lcfg1)"
    and "map_of bcfg ty = Some (JsonObj bc)"
  shows "map_of cfg1 = (map_of cfg)(ty \<mapsto> JsonObjList (seq_of (map_of cfg ty) @ [bc]))"
  using assms unfolding merge_block_def
  by (auto split: option.splits dyn.splits)

lemma blocks_loop_value:
  assumes "blocks_loop (\<lambda>b. convertBlock c b [] []) bs cfg lcfg = Returns (cfg', lcfg', None)"
  shows "map_of cfg' t =
     (if \<exists>b\<in>set bs. Type b = t
      then Some (JsonObjList (seq_of (map_of cfg t)
                   @ map (block_value c) (filter (\<lambda>b. Type b = t) bs)))
      else map_of cfg t)"
  using assms
proof (induction bs arbitrary: cfg lcfg)
  case Nil
  then show ?case by simp
next
  case (Cons b bs)
  from Cons.prems obtain bcfg blcfg cfg1 lcfg1 where
    cb: "convertBlock c b [] [] = Returns (bcfg, blcfg, None)"
    and mb: "merge_block (Type b) bcfg blcfg cfg lcfg = Returns (cfg1, lcfg1)"
    and rest: "blocks_loop (\<lambda>b. convertBlock c b [] []) bs cfg1 lcfg1 = Returns (cfg', lcfg', None)"
    by (auto split: outcome.splits option.splits)
  have m1: "map_of cfg1
      = (map_of cfg)(Type b \<mapsto> JsonObjList (seq_of (map_of cfg (Type b)) @ [block_value c b]))"
    using merge_block_value [OF mb convertBlock_fresh_value [OF cb]] .
  show ?case
    using Cons.IH [OF rest] m1 by auto
qed

lemma attributes_loop_other:
  "attributes_loop c attrs cfg lcfg = Returns (cfg', lcfg', None) \<Longrightarrow> t \<notin> fst ` set attrs
     \<Longrightarrow> map_of cfg' t = map_of cfg t"
proof (induction attrs arbitrary: cfg lcfg)
  case Nil
  then show ?case by simp
next
  case (Cons a attrs)
  obtain key "value" where a: "a = (key, value)" by (cases a)
  from Cons.prems(1) a obtain v l where
    ce: "convertExpression c (Expr value) = Returns (v, l, None)"
    by (auto simp: Let_def split: outcome.splits option.splits)
  from Cons.prems(1) a ce obtain lcfg1 where
    rest: "attributes_loop c attrs (upd key v cfg) lcfg1 = Returns (cfg', lcfg', None)"
    by (auto simp: Let_def)
  show ?case
    using Cons.IH [OF rest] Cons.prems(2) a by simp
qed

lemma upd_commute:
  "k1 \<noteq> k2 \<Longrightarrow> upd k1 v1 (upd k2 v2 m) = upd k2 v2 (upd k1 v1 m)"
  by (induction m) auto

lemma attributes_loop_success:
  "attributes_loop c attrs cfg lcfg = Returns (cfg', lcfg', None)
     \<longleftrightarrow> (\<forall>a\<in>set attrs. attr_ok c a) \<and> (cfg', lcfg') = fold (attr_store c) attrs (cfg, lcfg)"
proof (induction attrs arbitrary: cfg lcfg)
  case Nil
  then show ?case by auto
next
  case (Cons a attrs)
  obtain key val where a: "a = (key, val)" by (cases a)
  show ?case
  proof (cases "convertExpression c (Expr val)")
    case (Panics p)
    then show ?thesis using a by (simp add: attr_ok_def)
  next
    case (Returns res)
    obtain v l err where res: "res = (v, l, err)" by (cases res)
    have step: "attr_store c a (cfg, lcfg)
        = (upd key v cfg, upd key (with_name_range (NameRange val) l) lcfg)"
      using a Returns res by (simp add: attr_store_def)
    show ?thesis
    proof (cases err)
      case None
      then show ?thesis
        using a Returns res step
          Cons.IH [of "upd key v cfg" "upd key (with_name_range (NameRange val) l) lcfg"]
        by (simp add: attr_ok_def Let_def)
    next
      case (Some e)
      then show ?thesis
        using a Returns res by (simp add: attr_ok_def Let_def)
    qed
  qed
qed

lemma attr_store_commute:
  assumes "fst a \<noteq> fst b"
  shows "attr_store c a \<circ> attr_store c b = attr_store c b \<circ> attr_store c a"
proof
  fix maps
  show "(attr_store c a \<circ> attr_store c b) maps = (attr_store c b \<circ> attr_store c a) maps"
    using assms
    by (auto simp add: attr_store_def split: outcome.splits prod.splits intro: upd_commute)
qed

lemma attributes_loop_reorder:
  assumes "mset attrs = mset attrs'" and "distinct (map fst attrs)"
    and "attributes_loop c attrs cfg lcfg = Returns (cfg', lcfg', None)"
  shows "attributes_loop c attrs' cfg lcfg = Returns (cfg', lcfg', None)"
proof -
  have set: "set attrs = set attrs'" using assms(1) by (rule mset_eq_setD)
  have comm: "attr_store c x \<circ> attr_store c y = attr_store c y \<circ> attr_store c x"
    if "x \<in> set attrs" "y \<in> set attrs" for x y
  proof (cases "x = y")
    case True
    then show ?thesis by simp
  next
    case False
    then have "fst x \<noteq> fst y"
      using that assms(2) by (metis distinct_map inj_onD)
    then show ?thesis by (rule attr_store_commute)
  qed
  have "fold (attr_store c) attrs = fold (attr_store c) attrs'"
    using comm assms(1) by (rule fold_multiset_equiv)
  then show ?thesis
    using assms(3) set by (simp add: attributes_loop_success)
qed

lemma blocks_loop_rel:
  "list_all2 R blocks blocks'
     \<Longrightarrow> \<forall>b b' x y. b \<in> set blocks \<longrightarrow> R b b' \<longrightarrow> f b = Returns (x, y, None)
           \<longrightarrow> f b' = Returns (x, y, None) \<and> Type b' = Type b
     \<Longrightarrow> blocks_loop f blocks cfg lcfg = Returns (cfg', lcfg', None)
     \<Longrightarrow> blocks_loop f blocks' cfg lcfg = Returns (cfg', lcfg', None)"
proof (induction blocks blocks' arbitrary: cfg lcfg rule: list_all2_induct)
  case Nil
  then show ?case by simp
next
  case (Cons b bs b' bs')
  from Cons.prems(2) obtain bcfg blcfg cfg1 lcfg1 where
    fb: "f b = Returns (bcfg, blcfg, None)"
    and mb: "merge_block (Type b) bcfg blcfg cfg lcfg = Returns (cfg1, lcfg1)"
    and rest: "blocks_loop f bs cfg1 lcfg1 = Returns (cfg', lcfg', None)"
    by (auto split: outcome.splits option.splits)
  have fb': "f b' = Returns (bcfg, blcfg, None)" and ty: "Type b' = Type b"
    using Cons.prems(1) Cons.hyps(1) fb by simp_all
  have "blocks_loop f bs' cfg1 lcfg1 = Returns (cfg', lcfg', None)"
    using Cons.IH [OF _ rest] Cons.prems(1) by simp
  then show ?case using fb' ty mb by simp
qed

lemma convertBlock_fresh_eq:
  "convertBlock c (Block t ls body tr) [] [] =
     (case convertBody c body of
        Panics p \<Rightarrow> Panics p
      | Returns (Inl e) \<Rightarrow> Panics ''assignment to entry in nil map''
      | Returns (Inr (v, bl)) \<Rightarrow>
          Returns ([(t, JsonObj (nest_labels JsonObj ls v))],
                   [(t, LineObj (nest_labels LineObj ls (with_key_range tr bl)))], None))"
  by (auto simp: convertBlock_labels_fresh split: outcome.splits sum.splits)

lemma reorder_aux:
  "\<forall>b' r. same_body b b' \<longrightarrow> distinct_attrs b \<longrightarrow> convertBody c b = Returns (Inr r)
      \<longrightarrow> convertBody c b' = Returns (Inr r)"
  "\<forall>blk' x y. same_block blk blk' \<longrightarrow> distinct_attrs (BlockBody blk)
      \<longrightarrow> convertBlock c blk [] [] = Returns (x, y, None)
      \<longrightarrow> convertBlock c blk' [] [] = Returns (x, y, None) \<and> Type blk' = Type blk"
proof (induction b and blk)
  case (Body attrs blocks srcRange)
  show ?case
  proof (intro allI impI)
    fix b' r
    assume same: "same_body (Body attrs blocks srcRange) b'"
      and dist: "distinct_attrs (Body attrs blocks srcRange)"
      and conv: "convertBody c (Body attrs blocks srcRange) = Returns (Inr r)"
    obtain attrs' blocks' where b': "b' = Body attrs' blocks' srcRange"
      and ms: "mset attrs = mset attrs'"
      and rel: "list_all2 same_block blocks blocks'"
      using same by (cases b') auto
    from conv obtain cfg0 lcfg0 where
      bl: "blocks_loop (\<lambda>b. convertBlock c b [] []) blocks [] [] = Returns (cfg0, lcfg0, None)"
      by (auto split: outcome.splits option.splits)
    from conv bl obtain cfg1 lcfg1 where
      al: "attributes_loop c attrs cfg0 lcfg0 = Returns (cfg1, lcfg1, None)"
      by (auto split: outcome.splits option.splits)
    have step: "convertBlock c b'' [] [] = Returns (x, y, None) \<and> Type b'' = Type b"
      if "b \<in> set blocks" "same_block b b''" "convertBlock c b [] [] = Returns (x, y, None)"
      for b b'' x y
      using Body.IH [OF that(1)] that dist by (auto simp: list_all_iff)
    have bl': "blocks_loop (\<lambda>b. convertBlock c b [] []) blocks' [] [] = Returns (cfg0, lcfg0, None)"
      using blocks_loop_rel [OF rel _ bl] step by blast
    have al': "attributes_loop c attrs' cfg0 lcfg0 = Returns (cfg1, lcfg1, None)"
      using attributes_loop_reorder [OF ms _ al] dist by simp
    show "convertBody c b' = Returns (Inr r)"
      using conv bl al bl' al' b' by simp
  qed
next
  case (Block type labels body typeRange)
  show ?case
  proof (intro allI impI)
    fix blk' x y
    assume same: "same_block (Block type labels body typeRange) blk'"
      and dist: "distinct_attrs (BlockBody (Block type labels body typeRange))"
      and conv: "convertBlock c (Block type labels body typeRange) [] [] = Returns (x, y, None)"
    obtain body' where blk': "blk' = Block type labels body' typeRange"
      and sb: "same_body body body'"
      using same by (cases blk') auto
    from conv obtain r where r: "convertBody c body = Returns (Inr r)"
      unfolding convertBlock_fresh_eq by (auto split: outcome.splits sum.splits)
    have "convertBody c body' = Returns (Inr r)"
      using Block.IH sb dist r by simp
    then show "convertBlock c blk' [] [] = Returns (x, y, None) \<and> Type blk' = Type (Block type labels body typeRange)"
      using conv r unfolding blk' convertBlock_fresh_eq by simp
  qed
qed

lemma parity_simps [simp]:
  "parity (SimpleJSONValue x) (IntMap r)"
  "parity (Str s) (IntMap r)"
  "parity (IfaceList xs) (IntMap r)"
  "parity (JsonObj m) (LineObj lm) = parity_map m lm"
  "parity (JsonObjList ms) (LineObjList ls) = list_all2 parity_map ms ls"
  by (simp_all add: parity.simps)

lemma parity_record: "parity v (IntMap r) \<Longrightarrow> parity v (IntMap r')"
  by (cases v) (simp_all add: parity.simps)

lemma keys_upd [simp]: "fst ` set (upd k v m) = insert k (fst ` set m)"
  by (simp add: dom_map_of_conv_image_fst [symmetric])

lemma parity_map_iff:
  "parity_map m lm \<longleftrightarrow>
     (\<forall>k. k \<notin> position_fields \<longrightarrow> rel_option parity (map_of m k) (map_of lm k))"
proof
  assume pm: "parity_map m lm"
  then have keys: "dom (map_of m) - position_fields = dom (map_of lm) - position_fields"
    and ents: "\<forall>k \<in> dom (map_of m) - position_fields.
            case map_of m k of
              None \<Rightarrow> False
            | Some v \<Rightarrow> (case map_of lm k of None \<Rightarrow> False | Some lv \<Rightarrow> parity v lv)"
    unfolding parity_map.simps [of m lm] dom_map_of_conv_image_fst by simp_all
  show "\<forall>k. k \<notin> position_fields \<longrightarrow> rel_option parity (map_of m k) (map_of lm k)"
  proof (intro allI impI)
    fix k
    assume k: "k \<notin> position_fields"
    show "rel_option parity (map_of m k) (map_of lm k)"
    proof (cases "map_of m k")
      case None
      then have "k \<notin> dom (map_of lm)" using keys k by blast
      then show ?thesis using None by (simp add: domIff)
    next
      case (Some v)
      then have "k \<in> dom (map_of m) - position_fields" using k by blast
      with ents have "case map_of m k of
              None \<Rightarrow> False
            | Some v \<Rightarrow> (case map_of lm k of None \<Rightarrow> False | Some lv \<Rightarrow> parity v lv)"
        by (rule bspec)
      then show ?thesis using Some by (simp split: option.splits)
    qed
  qed
next
  assume r: "\<forall>k. k \<notin> position_fields \<longrightarrow> rel_option parity (map_of m k) (map_of lm k)"
  have keys: "dom (map_of m) - position_fields = dom (map_of lm) - position_fields"
  proof (intro set_eqI iffI)
    fix k
    assume "k \<in> dom (map_of m) - position_fields"
    then show "k \<in> dom (map_of lm) - position_fields"
      using r [rule_format, of k] by (auto simp: option_rel_Some1)
  next
    fix k
    assume "k \<in> dom (map_of lm) - position_fields"
    then show "k \<in> dom (map_of m) - position_fields"
      using r [rule_format, of k] by (auto simp: option_rel_Some2)
  qed
  have ents: "\<forall>k \<in> dom (map_of m) - position_fields.
            case map_of m k of
              None \<Rightarrow> False
            | Some v \<Rightarrow> (case map_of lm k of None \<Rightarrow> False | Some lv \<Rightarrow> parity v lv)"
  proof
    fix k
    assume "k \<in> dom (map_of m) - position_fields"
    then show "case map_of m k of
              None \<Rightarrow> False
            | Some v \<Rightarrow> (case map_of lm k of None \<Rightarrow> False | Some lv \<Rightarrow> parity v lv)"
      using r [rule_format, of k] by (auto simp: option_rel_Some1)
  qed
  show "parity_map m lm"
    using keys ents unfolding parity_map.simps [of m lm] dom_map_of_conv_image_fst
    by simp
qed

lemma parity_map_empty [simp]: "parity_map [] []"
  by (simp add: parity_map_iff)

lemma parity_map_upd:
  assumes "parity_map m lm" and "k \<notin> position_fields \<Longrightarrow> parity v lv"
  shows "parity_map (upd k v m) (upd k lv lm)"
  using assms by (simp add: parity_map_iff)

lemma parity_map_upd_line:
  assumes "parity_map m lm" and "k \<in> position_fields"
  shows "parity_map m (upd k x lm)"
  using assms by (auto simp add: parity_map_iff)

lemma tuple_elems_ret:
  "tuple_elems f exprs list line = Returns (ret, line', None) \<Longrightarrow> \<exists>xs. ret = IfaceList xs"
  by (induction exprs arbitrary: list) (auto split: outcome.splits option.splits)

lemma object_items_parity:
  "\<forall>(k, x) \<in> set items. \<forall>v l. fv x = Returns (v, l, None) \<longrightarrow> parity v l
     \<Longrightarrow> parity_map m lm
     \<Longrightarrow> object_items fk fv items m lm line = Returns (ret, line', None)
     \<Longrightarrow> parity ret line'"
proof (induction items arbitrary: m lm)
  case Nil
  then show ?case by auto
next
  case (Cons item items)
  obtain keyExpr valueExpr where item: "item = (keyExpr, valueExpr)" by (cases item)
  from Cons.prems(3) item obtain key v lv where
    fv: "fv valueExpr = Returns (v, lv, None)"
    and rest: "object_items fk fv items (upd key v m) (upd key lv lm) line
                 = Returns (ret, line', None)"
    by (auto split: outcome.splits option.splits)
  have "parity v lv" using Cons.prems(1) item fv by auto
  then have "parity_map (upd key v m) (upd key lv lm)"
    using Cons.prems(2) by (simp add: parity_map_upd)
  then show ?case
    using Cons.IH [OF _ _ rest] Cons.prems(1) by simp
qed

lemma convertExpression_parity:
  "convertExpression c ex = Returns (v, l, None) \<Longrightarrow> parity v l"
proof (induction c ex arbitrary: v l rule: convertExpression.induct)
  case (1 c ex)
  have sr: "\<not> \<not> StartRange_returns ex"
  proof
    assume "\<not> StartRange_returns ex"
    then have "convertExpression c ex = Panics ''index out of range''"
      by (subst convertExpression.simps) simp
    with "1.prems" show False by simp
  qed
  show ?case
  proof (cases ex)
    case (TemplateWrapExpr w r sr)
    then show ?thesis using "1.IH"(1) [OF sr] "1.prems" by simp
  next
    case (TupleConsExpr exprs r sr)
    with "1.prems" have t: "tuple_elems (convertExpression c) exprs [] (IntMap (lineInfo ex))
        = Returns (v, l, None)"
      by simp
    from tuple_elems_ret [OF t] tuple_elems_line [OF t] show ?thesis by auto
  next
    case (ObjectConsExpr items r sr)
    have a: "\<forall>(k, x) \<in> set items. \<forall>v l. convertExpression c x = Returns (v, l, None) \<longrightarrow> parity v l"
      using "1.IH"(3) [OF sr ObjectConsExpr] by blast
    from "1.prems" ObjectConsExpr
    have t: "object_items (convertKey c) (convertExpression c) items [] [] (IntMap (lineInfo ex))
        = Returns (v, l, None)"
      by simp
    from object_items_parity [OF a parity_map_empty t] show ?thesis .
  qed (use "1.prems" in \<open>auto simp: wrapped_def split: outcome.splits if_splits\<close>)
qed

lemma with_name_range_parity: "parity v l \<Longrightarrow> parity v (with_name_range r l)"
  by (cases l) (auto simp: with_name_range_def intro: parity_record)

lemma attributes_loop_parity:
  "parity_map cfg lcfg \<Longrightarrow> attributes_loop c attrs cfg lcfg = Returns (cfg', lcfg', None)
     \<Longrightarrow> parity_map cfg' lcfg'"
proof (induction attrs arbitrary: cfg lcfg)
  case Nil
  then show ?case by simp
next
  case (Cons a attrs)
  obtain key val where a: "a = (key, val)" by (cases a)
  from Cons.prems(2) a obtain v l where
    ce: "convertExpression c (Expr val) = Returns (v, l, None)"
    and rest: "attributes_loop c attrs (upd key v cfg)
                 (upd key (with_name_range (NameRange val) l) lcfg) = Returns (cfg', lcfg', None)"
    by (auto simp: Let_def split: outcome.splits option.splits)
  have "parity v (with_name_range (NameRange val) l)"
    using convertExpression_parity [OF ce] by (rule with_name_range_parity)
  then have "parity_map (upd key v cfg) (upd key (with_name_range (NameRange val) l) lcfg)"
    using Cons.prems(1) by (simp add: parity_map_upd)
  then show ?case using rest by (rule Cons.IH)
qed

lemma nest_labels_parity:
  "parity_map v l \<Longrightarrow> parity_map (nest_labels JsonObj ls v) (nest_labels LineObj ls l)"
proof (induction ls)
  case Nil
  then show ?case by simp
next
  case (Cons label ls)
  have "parity_map (upd label (JsonObj (nest_labels JsonObj ls v)) [])
          (upd label (LineObj (nest_labels LineObj ls l)) [])"
    using Cons by (intro parity_map_upd) simp_all
  then show ?case by simp
qed

lemma with_key_range_parity: "parity_map v l \<Longrightarrow> parity_map v (with_key_range r l)"
  unfolding with_key_range_def
  by (intro parity_map_upd_line) (simp_all add: position_fields_def)

lemma merge_block_parity:
  assumes "parity_map cfg lcfg"
    and "map_of bcfg ty = Some (JsonObj bc)" and "map_of blcfg ty = Some (LineObj lc)"
    and "parity_map bc lc"
    and "merge_block ty bcfg blcfg cfg lcfg = Returns (cfg1, lcfg1)"
  shows "parity_map cfg1 lcfg1"
proof (cases "map_of cfg ty")
  case None
  then have "cfg1 = upd ty (JsonObjList [bc]) cfg" "lcfg1 = upd ty (LineObjList [lc]) lcfg"
    using assms(2,3,5) by (simp_all add: merge_block_def)
  then show ?thesis using assms(1,4) by (simp add: parity_map_upd)
next
  case (Some x)
  then obtain list lineList where
    x: "x = JsonObjList list" and ll: "map_of lcfg ty = Some (LineObjList lineList)"
    and c1: "cfg1 = upd ty (JsonObjList (list @ [bc])) cfg"
    and l1: "lcfg1 = upd ty (LineObjList (lineList @ [lc])) lcfg"
    using assms(2,3,5) by (auto simp: merge_block_def split: dyn.splits option.splits)
  have "parity (JsonObjList (list @ [bc])) (LineObjList (lineList @ [lc]))"
    if "ty \<notin> position_fields"
  proof -
    have "rel_option parity (map_of cfg ty) (map_of lcfg ty)"
      using assms(1) that by (simp add: parity_map_iff)
    then have "list_all2 parity_map list lineList" using Some x ll by simp
    then show ?thesis using assms(4) by (simp add: list_all2_appendI)
  qed
  then show ?thesis unfolding c1 l1 using assms(1) by (intro parity_map_upd)
qed

lemma blocks_loop_parity:
  "\<forall>b \<in> set bs. \<forall>x y. f b = Returns (x, y, None) \<longrightarrow>
       (\<exists>bc lc. map_of x (Type b) = Some (JsonObj bc) \<and> map_of y (Type b) = Some (LineObj lc)
          \<and> parity_map bc lc)
     \<Longrightarrow> parity_map cfg lcfg
     \<Longrightarrow> blocks_loop f bs cfg lcfg = Returns (cfg', lcfg', None)
     \<Longrightarrow> parity_map cfg' lcfg'"
proof (induction bs arbitrary: cfg lcfg)
  case Nil
  then show ?case by simp
next
  case (Cons b bs)
  from Cons.prems(3) obtain bcfg blcfg cfg1 lcfg1 where
    fb: "f b = Returns (bcfg, blcfg, None)"
    and mb: "merge_block (Type b) bcfg blcfg cfg lcfg = Returns (cfg1, lcfg1)"
    and rest: "blocks_loop f bs cfg1 lcfg1 = Returns (cfg', lcfg', None)"
    by (auto split: outcome.splits option.splits)
  from Cons.prems(1) fb obtain bc lc where
    "map_of bcfg (Type b) = Some (JsonObj bc)" "map_of blcfg (Type b) = Some (LineObj lc)"
    "parity_map bc lc"
    by auto
  then have "parity_map cfg1 lcfg1"
    using merge_block_parity [OF Cons.prems(2) _ _ _ mb] by blast
  then show ?case using Cons.IH [OF _ _ rest] Cons.prems(1) by simp
qed

lemma convertBody_parity:
  "\<forall>cfg lcfg. convertBody c b = Returns (Inr (cfg, lcfg)) \<longrightarrow> parity_map cfg lcfg"
  "\<forall>x y. convertBlock c blk [] [] = Returns (x, y, None) \<longrightarrow>
      (\<exists>bc lc. map_of x (Type blk) = Some (JsonObj bc) \<and> map_of y (Type blk) = Some (LineObj lc)
         \<and> parity_map bc lc)"
proof (induction b and blk)
  case (Body attrs blocks srcRange)
  show ?case
  proof (intro allI impI)
    fix cfg lcfg
    assume conv: "convertBody c (Body attrs blocks srcRange) = Returns (Inr (cfg, lcfg))"
    from conv obtain cfg0 lcfg0 where
      bl: "blocks_loop (\<lambda>b. convertBlock c b [] []) blocks [] [] = Returns (cfg0, lcfg0, None)"
      by (auto split: outcome.splits option.splits)
    from conv bl obtain lcfg1 where
      al: "attributes_loop c attrs cfg0 lcfg0 = Returns (cfg, lcfg1, None)"
      and lc: "lcfg = upd ''endIndex'' (GoInt (Column (End srcRange)))
                 (upd ''startIndex'' (GoInt (Column (Start srcRange)))
                   (upd ''line'' (GoInt (Line (Start srcRange))) lcfg1))"
      by (auto split: outcome.splits option.splits)
    have "parity_map cfg0 lcfg0"
      using blocks_loop_parity [OF _ parity_map_empty bl] Body.IH by blast
    then have "parity_map cfg lcfg1" using al by (rule attributes_loop_parity)
    then show "parity_map cfg lcfg"
      unfolding lc by (intro parity_map_upd_line) (simp_all add: position_fields_def)
  qed
next
  case (Block type labels body typeRange)
  show ?case
  proof (intro allI impI)
    fix x y
    assume conv: "convertBlock c (Block type labels body typeRange) [] [] = Returns (x, y, None)"
    then obtain v bl where r: "convertBody c body = Returns (Inr (v, bl))"
      and x: "x = [(type, JsonObj (nest_labels JsonObj labels v))]"
      and y: "y = [(type, LineObj (nest_labels LineObj labels (with_key_range typeRange bl)))]"
      unfolding convertBlock_fresh_eq by (auto split: outcome.splits sum.splits)
    have "parity_map v bl" using Block.IH r by simp
    then have "parity_map (nest_labels JsonObj labels v)
                 (nest_labels LineObj labels (with_key_range typeRange bl))"
      by (intro nest_labels_parity with_key_range_parity)
    then show "\<exists>bc lc. map_of x (Type (Block type labels body typeRange)) = Some (JsonObj bc)
        \<and> map_of y (Type (Block type labels body typeRange)) = Some (LineObj lc)
        \<and> parity_map bc lc"
      using x y by simp
  qed
qed

section \<open>The claims\<close>

subsection \<open>C1: Same-named sibling blocks\<close>

text \<open>
  C1, as stated, fails for a single block: the entry under its type is a sequence
  of one element, not the bare converted body.
\<close>

theorem sibling_blocks_counterexample:
  "(case convertBody (conv ''a {}'')
          (Body [] [Block ''a'' [] (Body [] [] (span 2 4)) (span 0 1)] (span 0 4)) of
      Returns (Inr (cfg, lcfg)) \<Rightarrow>
        map_of cfg ''a'' = Some (JsonObjList [[]]) \<and> map_of cfg ''a'' \<noteq> Some (JsonObj [])
    | _ \<Rightarrow> False)"
  by code_simp

text \<open>
  C1, amended: in the value map of a body, the entry under a block type that is not
  also the name of an attribute is always a sequence, with one element for each
  block of that type, in the order of the blocks: a sequence of one element for one
  block, of three for \<open>a{}\<close>, \<open>a{}\<close>, \<open>a{}\<close>.  Each element is the converted body of
  its block, inside the objects that its labels open.
\<close>

theorem sibling_blocks_sequence:
  assumes "convertBody c (Body attrs blocks srcRange) = Returns (Inr (cfg, lcfg))"
    and "t \<notin> fst ` set attrs" and "\<exists>b\<in>set blocks. Type b = t"
  shows "map_of cfg t
           = Some (JsonObjList (map (block_value c) (filter (\<lambda>b. Type b = t) blocks)))"
proof -
  from assms(1) obtain cfg0 lcfg0 where
    bl: "blocks_loop (\<lambda>b. convertBlock c b [] []) blocks [] [] = Returns (cfg0, lcfg0, None)"
    by (auto split: outcome.splits option.splits)
  from assms(1) bl obtain lcfg1 where
    al: "attributes_loop c attrs cfg0 lcfg0 = Returns (cfg, lcfg1, None)"
    by (auto split: outcome.splits option.splits)
  show ?thesis
    using attributes_loop_other [OF al assms(2)] blocks_loop_value [OF bl, of t] assms(3)
    by simp
qed

theorem sibling_blocks_sequence_witness:
  "(\<exists>cfg lcfg. convertBody (conv ''a {} a {} a {}'')
          (Body []
             [Block ''a'' [] (Body [] [] (span 2 4)) (span 0 1),
              Block ''a'' [] (Body [] [] (span 7 9)) (span 5 6),
              Block ''a'' [] (Body [] [] (span 12 14)) (span 10 11)]
             (span 0 14)) = Returns (Inr (cfg, lcfg))
      \<and> map_of cfg ''a'' = Some (JsonObjList [[], [], []]))
   \<and> ''a'' \<notin> fst ` set ([] :: (string \<times> attribute) list)
   \<and> (\<exists>b\<in>set [Block ''a'' [] (Body [] [] (span 2 4)) (span 0 1),
                 Block ''a'' [] (Body [] [] (span 7 9)) (span 5 6),
                 Block ''a'' [] (Body [] [] (span 12 14)) (span 10 11)]. Type b = ''a'')"
proof -
  let ?c = "conv ''a {} a {} a {}''"
  let ?blocks = "[Block ''a'' [] (Body [] [] (span 2 4)) (span 0 1),
              Block ''a'' [] (Body [] [] (span 7 9)) (span 5 6),
              Block ''a'' [] (Body [] [] (span 12 14)) (span 10 11)]"
  have "case convertBody ?c (Body [] ?blocks (span 0 14)) of
          Returns (Inr (cfg, lcfg)) \<Rightarrow> True | _ \<Rightarrow> False"
    by code_simp
  then obtain cfg lcfg where
    a: "convertBody ?c (Body [] ?blocks (span 0 14)) = Returns (Inr (cfg, lcfg))"
    by (auto split: outcome.splits sum.splits)
  have b: "''a'' \<notin> fst ` set ([] :: (string \<times> attribute) list)" by simp
  have d: "\<exists>b\<in>set ?blocks. Type b = ''a''" by simp
  have v: "map (block_value ?c) (filter (\<lambda>b. Type b = ''a'') ?blocks) = [[], [], []]"
    by code_simp
  show ?thesis
    using a b d v sibling_blocks_sequence [OF a b d] by auto
qed

subsection \<open>C2: Label nesting\<close>

text \<open>
  C2, as stated, fails in its example: \<open>convertBody\<close> puts what \<open>convertBlock\<close> has
  stored under the type into a sequence, so the type key holds a sequence of one
  object, not the object.
\<close>

theorem label_nesting_counterexample:
  "(case convertBody (conv ''db \"mysql\" \"primary\" { x = 1 }'')
          (Body []
             [Block ''db'' [''mysql'', ''primary'']
                (Body [(''x'', \<lparr>Expr = LiteralValueExpr (NumberIntVal 1) (span 29 30) (span 29 30),
                               NameRange = span 25 26\<rparr>)] [] (span 23 32))
                (span 0 2)]
             (span 0 32)) of
      Returns (Inr (cfg, lcfg)) \<Rightarrow>
        map_of cfg ''db'' = Some (JsonObjList
          [[(''mysql'', JsonObj [(''primary'', JsonObj [(''x'', SimpleJSONValue (NumberIntVal 1))])])]])
        \<and> map_of cfg ''db'' \<noteq> Some (JsonObj
          [(''mysql'', JsonObj [(''primary'', JsonObj [(''x'', SimpleJSONValue (NumberIntVal 1))])])])
    | _ \<Rightarrow> False)"
  by code_simp

text \<open>
  C2, amended: for a block with the labels \<open>l1, ..., ln\<close> whose body converts,
  \<open>convertBlock\<close> on new maps stores under the type name the chain of \<open>n\<close> nested
  objects keyed by the labels in order, with the converted body at the last label
  (and the body itself when there is no label); \<open>convertBody\<close> stores a sequence
  holding that chain under the type name.  The block \<open>db "mysql" "primary" { x = 1 }\<close>
  gives \<open>{"db": [{"mysql": {"primary": {"x": 1}}}]}\<close>.
\<close>

theorem label_nesting:
  "(convertBody c body = Returns (Inr (bodyValue, bodyLine)) \<longrightarrow>
      convertBlock c (Block type labels body typeRange) [] []
        = Returns ([(type, JsonObj (nest_labels JsonObj labels bodyValue))],
                   [(type, LineObj (nest_labels LineObj labels (with_key_range typeRange bodyLine)))],
                   None)
      \<and> (\<exists>lcfg. convertBody c (Body [] [Block type labels body typeRange] srcRange)
            = Returns (Inr ([(type, JsonObjList [nest_labels JsonObj labels bodyValue])], lcfg))))
   \<and> (case convertBody (conv ''db \"mysql\" \"primary\" { x = 1 }'')
          (Body []
             [Block ''db'' [''mysql'', ''primary'']
                (Body [(''x'', \<lparr>Expr = LiteralValueExpr (NumberIntVal 1) (span 29 30) (span 29 30),
                               NameRange = span 25 26\<rparr>)] [] (span 23 32))
                (span 0 2)]
             (span 0 32)) of
        Returns (Inr (cfg, lcfg)) \<Rightarrow>
          cfg = [(''db'', JsonObjList
            [[(''mysql'', JsonObj [(''primary'', JsonObj [(''x'', SimpleJSONValue (NumberIntVal 1))])])]])]
      | _ \<Rightarrow> False)"
proof (intro conjI impI)
  assume b: "convertBody c body = Returns (Inr (bodyValue, bodyLine))"
  show blk: "convertBlock c (Block type labels body typeRange) [] []
        = Returns ([(type, JsonObj (nest_labels JsonObj labels bodyValue))],
                   [(type, LineObj (nest_labels LineObj labels (with_key_range typeRange bodyLine)))],
                   None)"
    using b by (simp add: convertBlock_labels_fresh)
  show "\<exists>lcfg. convertBody c (Body [] [Block type labels body typeRange] srcRange)
            = Returns (Inr ([(type, JsonObjList [nest_labels JsonObj labels bodyValue])], lcfg))"
    using blk by (simp add: merge_block_def del: convertBlock.simps)
next
  show "case convertBody (conv ''db \"mysql\" \"primary\" { x = 1 }'')
          (Body []
             [Block ''db'' [''mysql'', ''primary'']
                (Body [(''x'', \<lparr>Expr = LiteralValueExpr (NumberIntVal 1) (span 29 30) (span 29 30),
                               NameRange = span 25 26\<rparr>)] [] (span 23 32))
                (span 0 2)]
             (span 0 32)) of
        Returns (Inr (cfg, lcfg)) \<Rightarrow>
          cfg = [(''db'', JsonObjList
            [[(''mysql'', JsonObj [(''primary'', JsonObj [(''x'', SimpleJSONValue (NumberIntVal 1))])])]])]
      | _ \<Rightarrow> False"
    by code_simp
qed

theorem label_nesting_witness:
  "convertBody (conv ''db \"mysql\" \"primary\" { x = 1 }'')
       (Body [(''x'', \<lparr>Expr = LiteralValueExpr (NumberIntVal 1) (span 29 30) (span 29 30),
                       NameRange = span 25 26\<rparr>)] [] (span 23 32))
     = Returns (Inr ([(''x'', SimpleJSONValue (NumberIntVal 1))],
         [(''endIndex'', GoInt 33), (''line'', GoInt 1), (''startIndex'', GoInt 24),
          (''x'', IntMap [(''__key__endIndex'', 27), (''__key__line'', 1),
                          (''__key__startIndex'', 26), (''endIndex'', 31), (''line'', 1),
                          (''startIndex'', 30)])]))
   \<and> (\<exists>lcfg. convertBody (conv ''db \"mysql\" \"primary\" { x = 1 }'')
          (Body []
             [Block ''db'' [''mysql'', ''primary'']
                (Body [(''x'', \<lparr>Expr = LiteralValueExpr (NumberIntVal 1) (span 29 30) (span 29 30),
                               NameRange = span 25 26\<rparr>)] [] (span 23 32))
                (span 0 2)]
             (span 0 32))
        = Returns (Inr ([(''db'', JsonObjList
            [[(''mysql'', JsonObj [(''primary'', JsonObj [(''x'', SimpleJSONValue (NumberIntVal 1))])])]])],
            lcfg)))"
proof -
  let ?c = "conv ''db \"mysql\" \"primary\" { x = 1 }''"
  let ?body = "Body [(''x'', \<lparr>Expr = LiteralValueExpr (NumberIntVal 1) (span 29 30) (span 29 30),
                       NameRange = span 25 26\<rparr>)] [] (span 23 32)"
  let ?lvalue = "[(''endIndex'', GoInt 33), (''line'', GoInt 1), (''startIndex'', GoInt 24),
          (''x'', IntMap [(''__key__endIndex'', 27), (''__key__line'', 1),
                          (''__key__startIndex'', 26), (''endIndex'', 31), (''line'', 1),
                          (''startIndex'', 30)])]"
  have a: "convertBody ?c ?body = Returns (Inr ([(''x'', SimpleJSONValue (NumberIntVal 1))], ?lvalue))"
    by code_simp
  from a label_nesting [where c = ?c and body = ?body
        and bodyValue = "[(''x'', SimpleJSONValue (NumberIntVal 1))]" and bodyLine = ?lvalue
        and type = "''db''" and labels = "[''mysql'', ''primary'']" and typeRange = "span 0 2"
        and srcRange = "span 0 32"]
  obtain lcfg where e: "convertBody ?c (Body [] [Block ''db'' [''mysql'', ''primary''] ?body (span 0 2)]
        (span 0 32))
      = Returns (Inr ([(''db'', JsonObjList [nest_labels JsonObj [''mysql'', ''primary'']
                          [(''x'', SimpleJSONValue (NumberIntVal 1))]])], lcfg))"
    by blast
  have n: "nest_labels JsonObj [''mysql'', ''primary''] [(''x'', SimpleJSONValue (NumberIntVal 1))]
      = [(''mysql'', JsonObj [(''primary'', JsonObj [(''x'', SimpleJSONValue (NumberIntVal 1))])])]"
    by simp
  show ?thesis
    using a e unfolding n by blast
qed

subsection \<open>C3: An attribute with the name of a block\<close>

text \<open>
  C3 at a failing input: the body of \<open>a {}\<close> followed by \<open>a = 1\<close>.  The block loop
  stores the sequence of the converted block under \<open>a\<close> in both maps; the attribute
  loop then assigns the value and the line of the attribute to the same key, and the
  entries of the block are gone.
\<close>

theorem attribute_overwrites_block:
  "(case convertBody (conv (''a {}'' @ [CHR 0x0A] @ ''a = 1''))
          (Body []
             [Block ''a'' [] (Body [] [] (span 2 4)) (span 0 1)]
             \<lparr>Start = \<lparr>Line = 1, Column = 1, Byte = 0\<rparr>, End = \<lparr>Line = 2, Column = 6, Byte = 10\<rparr>\<rparr>) of
      Returns (Inr (cfg, lcfg)) \<Rightarrow>
        map_of cfg ''a'' = Some (JsonObjList [[]])
        \<and> map_of lcfg ''a'' = Some (LineObjList
             [[(''__key__endIndex'', GoInt 2), (''__key__line'', GoInt 1),
               (''__key__startIndex'', GoInt 1), (''endIndex'', GoInt 5),
               (''line'', GoInt 1), (''startIndex'', GoInt 3)]])
    | _ \<Rightarrow> False)
   \<and> (case convertBody (conv (''a {}'' @ [CHR 0x0A] @ ''a = 1''))
          (Body
             [(''a'', \<lparr>Expr = LiteralValueExpr (NumberIntVal 1)
                          \<lparr>Start = \<lparr>Line = 2, Column = 5, Byte = 9\<rparr>,
                           End = \<lparr>Line = 2, Column = 6, Byte = 10\<rparr>\<rparr>
                          \<lparr>Start = \<lparr>Line = 2, Column = 5, Byte = 9\<rparr>,
                           End = \<lparr>Line = 2, Column = 6, Byte = 10\<rparr>\<rparr>,
                       NameRange = \<lparr>Start = \<lparr>Line = 2, Column = 1, Byte = 5\<rparr>,
                                    End = \<lparr>Line = 2, Column = 2, Byte = 6\<rparr>\<rparr>\<rparr>)]
             [Block ''a'' [] (Body [] [] (span 2 4)) (span 0 1)]
             \<lparr>Start = \<lparr>Line = 1, Column = 1, Byte = 0\<rparr>, End = \<lparr>Line = 2, Column = 6, Byte = 10\<rparr>\<rparr>) of
      Returns (Inr (cfg, lcfg)) \<Rightarrow>
        cfg = [(''a'', SimpleJSONValue (NumberIntVal 1))]
        \<and> map_of lcfg ''a'' = Some (IntMap
             [(''__key__endIndex'', 2), (''__key__line'', 2), (''__key__startIndex'', 1),
              (''endIndex'', 6), (''line'', 2), (''startIndex'', 5)])
    | _ \<Rightarrow> False)"
  by code_simp

subsection \<open>C4: Errors inside a conditional\<close>

text \<open>
  C4 at a failing input.  The literal with a list value has no conversion to string:
  as a string part of its own it is an error, and \<open>ConvertFile\<close> returns that error
  for an attribute of the file's body whose template has the literal as a part.  As
  the true branch of a conditional the error is replaced by \<open>"", nil\<close>, and as the
  false branch it is dropped, so the template, the attribute and the file convert
  without error.  (In the body of a block the same failing attribute makes
  \<open>convertBlock\<close> write into the nil map that \<open>convertBody\<close> returned with the
  error: a panic, the last conjunct.)
\<close>

theorem conversion_error_not_propagated:
  "convertStringPart (conv ''v = \"%{if c}%{endif}\"'')
       (LiteralValueExpr (ListVal []) (span 12 12) (span 12 12))
     = Returns ([], Some ''string required'')
   \<and> convertExpression (conv ''v = \"%{if c}%{endif}\"'')
       (TemplateExpr
          [ConditionalExpr (ScopeTraversalExpr (span 10 11) (span 10 11))
             (LiteralValueExpr (ListVal []) (span 12 12) (span 12 12))
             (LiteralValueExpr (StringVal []) (span 12 12) (span 12 12))
             (span 5 20) (span 10 11)]
          (span 4 21) (span 10 11))
     = Returns (Str [], IntMap [(''endIndex'', 12), (''line'', 1), (''startIndex'', 11)], None)
   \<and> convertExpression (conv ''v = \"%{if c}a%{else}%{endif}\"'')
       (TemplateExpr
          [ConditionalExpr (ScopeTraversalExpr (span 10 11) (span 10 11))
             (LiteralValueExpr (StringVal ''a'') (span 12 13) (span 12 13))
             (LiteralValueExpr (ListVal []) (span 20 20) (span 20 20))
             (span 5 28) (span 10 11)]
          (span 4 29) (span 10 11))
     = Returns (Str ''%{if c}a%{endif}'',
                IntMap [(''endIndex'', 12), (''line'', 1), (''startIndex'', 11)], None)
   \<and> (case ConvertFile
          \<lparr>FileBody = Some (Body
              [(''v'', \<lparr>Expr = TemplateExpr
                    [ConditionalExpr (ScopeTraversalExpr (span 10 11) (span 10 11))
                       (LiteralValueExpr (ListVal []) (span 12 12) (span 12 12))
                       (LiteralValueExpr (StringVal []) (span 12 12) (span 12 12))
                       (span 5 20) (span 10 11)]
                    (span 4 21) (span 10 11),
                  NameRange = span 0 1\<rparr>)]
              [] (span 0 21)),
           Bytes = ''v = \"%{if c}%{endif}\"''\<rparr> \<lparr>Simplify = False\<rparr> of
         Returns (Inr (cfg, lcfg)) \<Rightarrow> cfg = [(''v'', Str [])]
       | _ \<Rightarrow> False)
   \<and> ConvertFile
          \<lparr>FileBody = Some (Body
              [(''v'', \<lparr>Expr = TemplateExpr
                    [LiteralValueExpr (ListVal []) (span 5 5) (span 5 5),
                     LiteralValueExpr (StringVal ''x'') (span 5 6) (span 5 6)]
                    (span 4 7) (span 5 5),
                  NameRange = span 0 1\<rparr>)]
              [] (span 0 7)),
           Bytes = ''v = \"x\"''\<rparr> \<lparr>Simplify = False\<rparr>
       = Returns (Inl ''convert body: convert expression: string required'')
   \<and> ConvertFile
          \<lparr>FileBody = Some (Body []
              [Block ''a'' []
                 (Body
                    [(''v'', \<lparr>Expr = TemplateExpr
                          [LiteralValueExpr (ListVal []) (span 9 9) (span 9 9),
                           LiteralValueExpr (StringVal ''x'') (span 9 10) (span 9 10)]
                          (span 8 11) (span 9 9),
                        NameRange = span 4 5\<rparr>)]
                    [] (span 2 13))
                 (span 0 1)]
              (span 0 13)),
           Bytes = ''a { v = \"x\" }''\<rparr> \<lparr>Simplify = False\<rparr>
       = Panics ''assignment to entry in nil map''"
  by code_simp

subsection \<open>C5: The shapes of the two trees\<close>

text \<open>
  C5, as stated, fails.  The value of the attribute \<open>x = [1, 2]\<close> is a sequence of
  two elements and its line is one position record, not a sequence.  For the block
  \<open>a "b" {}\<close> the value under \<open>b\<close> is a map without keys and the line under \<open>b\<close> is
  a map with six.
\<close>

theorem shape_parity_counterexample:
  "(case convertBody (conv ''x = [1, 2]'')
          (Body [(''x'', \<lparr>Expr = TupleConsExpr
                              [LiteralValueExpr (NumberIntVal 1) (span 5 6) (span 5 6),
                               LiteralValueExpr (NumberIntVal 2) (span 8 9) (span 8 9)]
                              (span 4 10) (span 4 5),
                          NameRange = span 0 1\<rparr>)] [] (span 0 10)) of
      Returns (Inr (cfg, lcfg)) \<Rightarrow>
        map_of cfg ''x''
          = Some (IfaceList [SimpleJSONValue (NumberIntVal 1), SimpleJSONValue (NumberIntVal 2)])
        \<and> map_of lcfg ''x''
          = Some (IntMap [(''__key__endIndex'', 2), (''__key__line'', 1),
                          (''__key__startIndex'', 1), (''endIndex'', 6), (''line'', 1),
                          (''startIndex'', 5)])
    | _ \<Rightarrow> False)
   \<and> convertBlock (conv ''a \"b\" {}'') (Block ''a'' [''b''] (Body [] [] (span 6 8)) (span 0 1)) [] []
     = Returns ([(''a'', JsonObj [(''b'', JsonObj [])])],
                [(''a'', LineObj [(''b'', LineObj
                   [(''__key__endIndex'', GoInt 2), (''__key__line'', GoInt 1),
                    (''__key__startIndex'', GoInt 1), (''endIndex'', GoInt 9),
                    (''line'', GoInt 1), (''startIndex'', GoInt 7)])])], None)"
  by code_simp

text \<open>
  C5, amended: for every body that converts, the value map and the line map
  correspond: leaving aside the names of the position entries (\<open>line\<close>,
  \<open>startIndex\<close>, \<open>endIndex\<close>, \<open>__key__startIndex\<close>, \<open>__key__endIndex\<close>,
  \<open>__key__line\<close>), the two maps have the same keys, and under each of them a scalar
  or a tuple goes with one position record, a sequence of blocks with a sequence of
  the same length, and a map with a map that corresponds in the same way.
\<close>

theorem shape_parity:
  assumes "convertBody c b = Returns (Inr (cfg, lcfg))"
  shows "parity (JsonObj cfg) (LineObj lcfg)"
  using convertBody_parity(1) [of c b] assms by simp

theorem shape_parity_witness:
  "convertBody (conv ''db \"mysql\" \"primary\" { x = 1 }'')
      (Body []
         [Block ''db'' [''mysql'', ''primary'']
            (Body [(''x'', \<lparr>Expr = LiteralValueExpr (NumberIntVal 1) (span 29 30) (span 29 30),
                           NameRange = span 25 26\<rparr>)] [] (span 23 32))
            (span 0 2)]
         (span 0 32))
     = Returns (Inr
         ([(''db'', JsonObjList
             [[(''mysql'', JsonObj [(''primary'', JsonObj [(''x'', SimpleJSONValue (NumberIntVal 1))])])]])],
          [(''db'', LineObjList
             [[(''mysql'', LineObj [(''primary'', LineObj
                 [(''__key__endIndex'', GoInt 3), (''__key__line'', GoInt 1),
                  (''__key__startIndex'', GoInt 1), (''endIndex'', GoInt 33),
                  (''line'', GoInt 1), (''startIndex'', GoInt 24),
                  (''x'', IntMap [(''__key__endIndex'', 27), (''__key__line'', 1),
                                  (''__key__startIndex'', 26), (''endIndex'', 31),
                                  (''line'', 1), (''startIndex'', 30)])])])]]),
           (''endIndex'', GoInt 33), (''line'', GoInt 1), (''startIndex'', GoInt 1)]))
   \<and> parity
        (JsonObj [(''db'', JsonObjList
             [[(''mysql'', JsonObj [(''primary'', JsonObj [(''x'', SimpleJSONValue (NumberIntVal 1))])])]])])
        (LineObj [(''db'', LineObjList
             [[(''mysql'', LineObj [(''primary'', LineObj
                 [(''__key__endIndex'', GoInt 3), (''__key__line'', GoInt 1),
                  (''__key__startIndex'', GoInt 1), (''endIndex'', GoInt 33),
                  (''line'', GoInt 1), (''startIndex'', GoInt 24),
                  (''x'', IntMap [(''__key__endIndex'', 27), (''__key__line'', 1),
                                  (''__key__startIndex'', 26), (''endIndex'', 31),
                                  (''line'', 1), (''startIndex'', 30)])])])]]),
           (''endIndex'', GoInt 33), (''line'', GoInt 1), (''startIndex'', GoInt 1)])"
proof -
  have e: "convertBody (conv ''db \"mysql\" \"primary\" { x = 1 }'')
      (Body []
         [Block ''db'' [''mysql'', ''primary'']
            (Body [(''x'', \<lparr>Expr = LiteralValueExpr (NumberIntVal 1) (span 29 30) (span 29 30),
                           NameRange = span 25 26\<rparr>)] [] (span 23 32))
            (span 0 2)]
         (span 0 32))
     = Returns (Inr
         ([(''db'', JsonObjList
             [[(''mysql'', JsonObj [(''primary'', JsonObj [(''x'', SimpleJSONValue (NumberIntVal 1))])])]])],
          [(''db'', LineObjList
             [[(''mysql'', LineObj [(''primary'', LineObj
                 [(''__key__endIndex'', GoInt 3), (''__key__line'', GoInt 1),
                  (''__key__startIndex'', GoInt 1), (''endIndex'', GoInt 33),
                  (''line'', GoInt 1), (''startIndex'', GoInt 24),
                  (''x'', IntMap [(''__key__endIndex'', 27), (''__key__line'', 1),
                                  (''__key__startIndex'', 26), (''endIndex'', 31),
                                  (''line'', 1), (''startIndex'', 30)])])])]]),
           (''endIndex'', GoInt 33), (''line'', GoInt 1), (''startIndex'', GoInt 1)]))"
    by code_simp
  show ?thesis
    using e shape_parity [OF e] by blast
qed

subsection \<open>C6: The line node of an expression\<close>

text \<open>
  C6, as stated, fails: the line returned for an object expression is the map of
  its items' lines, with no position of the object itself, and the line returned for
  a template-wrap is computed from the start range of the wrapped expression.
\<close>

theorem convertExpression_line_node_counterexample:
  "convertExpression (conv ''x = {}'') (ObjectConsExpr [] (span 4 6) (span 4 5))
     = Returns (JsonObj [], LineObj [], None)
   \<and> convertExpression (conv ''x = \"${y}\"'')
         (TemplateWrapExpr (ScopeTraversalExpr (span 7 8) (span 7 8)) (span 4 10) (span 4 10))
     = Returns (Str ''${y}'', IntMap [(''endIndex'', 9), (''line'', 1), (''startIndex'', 8)], None)
   \<and> Column (Start (StartRange
         (TemplateWrapExpr (ScopeTraversalExpr (span 7 8) (span 7 8)) (span 4 10) (span 4 10)))) = 5"
  by code_simp

text \<open>
  C6, amended: for every expression that is neither a template-wrap nor an object
  construction, the line that \<open>convertExpression\<close> returns without error is the
  record of \<open>line\<close>, \<open>startIndex\<close> and \<open>endIndex\<close> taken from that expression's own
  start range.  A template-wrap returns what the wrapped expression returns.  An
  object construction returns as its line the map that holds, under the key of each
  item, the line of the item's value (a later item replacing an earlier one with the
  same key), and nothing else: no position of the object itself.
\<close>

theorem convertExpression_line_node:
  "(own_line ex \<longrightarrow> convertExpression c ex = Returns (ret, line, None) \<longrightarrow>
      (\<exists>m. line = IntMap m
         \<and> map_of m ''line'' = Some (Line (Start (StartRange ex)))
         \<and> map_of m ''startIndex'' = Some (Column (Start (StartRange ex)))
         \<and> map_of m ''endIndex'' = Some (Column (End (StartRange ex)))))
   \<and> convertExpression c (TemplateWrapExpr w r sr) = convertExpression c w
   \<and> (convertExpression c' (ObjectConsExpr items r' sr') = Returns (ret', line', None) \<longrightarrow>
        (\<exists>l. line' = LineObj l
           \<and> map_of l = map_of (rev (map (\<lambda>(k, v). (item_key c' k, item_line c' v)) items))
           \<and> fst ` set l = item_key c' ` fst ` set items))"
proof (intro conjI impI)
  assume "own_line ex" and "convertExpression c ex = Returns (ret, line, None)"
  then show "\<exists>m. line = IntMap m
         \<and> map_of m ''line'' = Some (Line (Start (StartRange ex)))
         \<and> map_of m ''startIndex'' = Some (Column (Start (StartRange ex)))
         \<and> map_of m ''endIndex'' = Some (Column (End (StartRange ex)))"
    using own_line_result [of c ex ret line] lineInfo_fields [of ex] by simp
next
  show "convertExpression c (TemplateWrapExpr w r sr) = convertExpression c w" by simp
next
  assume "convertExpression c' (ObjectConsExpr items r' sr') = Returns (ret', line', None)"
  then have "object_items (convertKey c') (convertExpression c') items [] []
               (IntMap (lineInfo (ObjectConsExpr items r' sr'))) = Returns (ret', line', None)"
    by simp
  from object_items_entries [OF this] obtain l where
    l: "line' = LineObj l"
    and m: "map_of l = map_of (rev (map (\<lambda>(k, v). (item_key c' k, item_line c' v)) items))"
    by auto
  from object_items_keys [OF m] l m
  show "\<exists>l. line' = LineObj l
           \<and> map_of l = map_of (rev (map (\<lambda>(k, v). (item_key c' k, item_line c' v)) items))
           \<and> fst ` set l = item_key c' ` fst ` set items"
    by blast
qed

theorem convertExpression_line_node_witness:
  "own_line (TupleConsExpr [] (span 4 6) (span 4 5))
   \<and> convertExpression (conv ''x = []'') (TupleConsExpr [] (span 4 6) (span 4 5))
       = Returns (IfaceList [], IntMap [(''endIndex'', 6), (''line'', 1), (''startIndex'', 5)], None)
   \<and> (\<exists>m. IntMap [(''endIndex'', 6), (''line'', 1), (''startIndex'', 5)] = IntMap m
         \<and> map_of m ''line'' = Some 1 \<and> map_of m ''startIndex'' = Some 5
         \<and> map_of m ''endIndex'' = Some 6)
   \<and> convertExpression (conv ''x = {a = 1}'')
        (ObjectConsExpr
           [(ObjectConsKeyExpr (ScopeTraversalExpr (span 5 6) (span 5 6)) (span 5 6) (span 5 6),
             LiteralValueExpr (NumberIntVal 1) (span 9 10) (span 9 10))]
           (span 4 11) (span 4 5))
       = Returns (JsonObj [(''a'', SimpleJSONValue (NumberIntVal 1))],
                  LineObj [(''a'', IntMap [(''endIndex'', 11), (''line'', 1), (''startIndex'', 10)])],
                  None)
   \<and> (\<exists>l. LineObj [(''a'', IntMap [(''endIndex'', 11), (''line'', 1), (''startIndex'', 10)])]
            = LineObj l
         \<and> map_of l ''a'' = Some (IntMap [(''endIndex'', 11), (''line'', 1), (''startIndex'', 10)])
         \<and> fst ` set l = {''a''})"
proof -
  let ?t = "TupleConsExpr [] (span 4 6) (span 4 5)"
  let ?line = "IntMap [(''endIndex'', 6), (''line'', 1), (''startIndex'', 5)]"
  let ?c = "conv ''x = {a = 1}''"
  let ?k = "ObjectConsKeyExpr (ScopeTraversalExpr (span 5 6) (span 5 6)) (span 5 6) (span 5 6)"
  let ?v = "LiteralValueExpr (NumberIntVal 1) (span 9 10) (span 9 10)"
  let ?lv = "IntMap [(''endIndex'', 11), (''line'', 1), (''startIndex'', 10)]"
  have a: "own_line ?t" by (simp add: own_line_def)
  have b: "convertExpression (conv ''x = []'') ?t = Returns (IfaceList [], ?line, None)"
    by code_simp
  have o: "convertExpression ?c (ObjectConsExpr [(?k, ?v)] (span 4 11) (span 4 5))
       = Returns (JsonObj [(''a'', SimpleJSONValue (NumberIntVal 1))], LineObj [(''a'', ?lv)], None)"
    by code_simp
  have d: "Line (Start (StartRange ?t)) = 1" "Column (Start (StartRange ?t)) = 5"
    "Column (End (StartRange ?t)) = 6"
    by (simp_all add: span_def)
  have ik: "item_key ?c ?k = ''a''" by code_simp
  have il: "item_line ?c ?v = ?lv" by code_simp
  show ?thesis
    using a b o d ik il convertExpression_line_node [where ex = ?t and c = "conv ''x = []''"
        and ret = "IfaceList []" and line = ?line and c' = ?c and items = "[(?k, ?v)]"
        and r' = "span 4 11" and sr' = "span 4 5"
        and ret' = "JsonObj [(''a'', SimpleJSONValue (NumberIntVal 1))]"
        and line' = "LineObj [(''a'', ?lv)]"]
    by simp
qed

subsection \<open>C7: Templates\<close>

text \<open>
  C7, as stated, fails in its second half: a non-constant part is not always given
  back as its source text.  A conditional inside an interpolation is rewritten as an
  \<open>if\<close> directive: the template \<open>"x${a ? "b" : "c"}y"\<close>, whose text between the
  quotes is the bytes 5 to 23 of the source, is converted to
  \<open>x%{if a}b%{else}c%{endif}y\<close>.
\<close>

theorem template_markup_counterexample:
  "convertExpression (conv ''v = \"x${a ? \"b\" : \"c\"}y\"'')
     (TemplateExpr
        [LiteralValueExpr (StringVal ''x'') (span 5 6) (span 5 6),
         ConditionalExpr (ScopeTraversalExpr (span 8 9) (span 8 9))
           (TemplateExpr [LiteralValueExpr (StringVal ''b'') (span 13 14) (span 13 14)]
              (span 12 15) (span 13 14))
           (TemplateExpr [LiteralValueExpr (StringVal ''c'') (span 19 20) (span 19 20)]
              (span 18 21) (span 19 20))
           (span 8 21) (span 8 9),
         LiteralValueExpr (StringVal ''y'') (span 22 23) (span 22 23)]
        (span 4 24) (span 5 6))
     = Returns (Str ''x%{if a}b%{else}c%{endif}y'',
                IntMap [(''endIndex'', 7), (''line'', 1), (''startIndex'', 6)], None)
   \<and> take 18 (drop 5 ''v = \"x${a ? \"b\" : \"c\"}y\"'') = ''x${a ? \"b\" : \"c\"}y''"
  by code_simp

text \<open>
  C7, amended.  A template with at least one part whose parts are all literals is
  converted to the string that evaluating it gives.  Any other template is
  converted, when each of its parts has a reconstruction, to the reconstructions of
  its parts put together in order, where a literal part is its string, a nested
  template or template-wrap is its own reconstruction, a conditional is the
  directive \<open>%{if c}T%{else}F%{endif}\<close> built from the source of its condition and
  the reconstructions of its branches (without \<open>%{else}F\<close> when \<open>F\<close> is empty), a
  template join over a for expression is \<open>%{for k, v in coll}B%{endfor}\<close> built
  from its variables, the source of its collection and the reconstruction of its
  body, and any other expression is its source text between \<open>${\<close> and \<open>}\<close>.  So
  \<open>"hello-${var.x}"\<close> is converted to \<open>hello-${var.x}\<close>, its source text, and is not
  evaluated.
\<close>

theorem template_constant_or_markup:
  "(all_literal parts \<longrightarrow> parts \<noteq> [] \<longrightarrow> TemplateExpr_Value (literal_values parts) = Inr s \<longrightarrow>
      convertExpression c (TemplateExpr parts r sr)
        = Returns (Str s, IntMap (lineInfo (TemplateExpr parts r sr)), None))
   \<and> (markup c2 ex = Some s2 \<longrightarrow> convertStringPart c2 ex = Returns (s2, None))
   \<and> (StartRange_returns (TemplateExpr parts3 r3 sr3) \<longrightarrow>
        markup c3 (TemplateExpr parts3 r3 sr3) = Some s3 \<longrightarrow>
        convertExpression c3 (TemplateExpr parts3 r3 sr3)
          = Returns (Str s3, IntMap (lineInfo (TemplateExpr parts3 r3 sr3)), None))
   \<and> convertExpression (conv ''name = \"hello-${var.x}\"'')
        (TemplateExpr [LiteralValueExpr (StringVal ''hello-'') (span 8 14) (span 8 14),
                       ScopeTraversalExpr (span 16 21) (span 16 19)] (span 7 23) (span 8 14))
      = Returns (Str ''hello-${var.x}'',
                 IntMap [(''endIndex'', 15), (''line'', 1), (''startIndex'', 9)], None)"
proof (intro conjI impI)
  assume lit: "all_literal parts" and ne: "parts \<noteq> []"
    and val: "TemplateExpr_Value (literal_values parts) = Inr s"
  have "convertTemplate c parts = Returns (s, None)"
  proof (cases "IsStringLiteral parts")
    case True
    then show ?thesis using val by (subst convertTemplate.simps) simp
  next
    case False
    then show ?thesis
      using template_parts_literals [OF lit val, of c "[]"]
      by (subst convertTemplate.simps) simp
  qed
  then show "convertExpression c (TemplateExpr parts r sr)
        = Returns (Str s, IntMap (lineInfo (TemplateExpr parts r sr)), None)"
    using all_literal_StartRange [OF lit ne, of r sr] by simp
next
  assume "markup c2 ex = Some s2"
  then show "convertStringPart c2 ex = Returns (s2, None)" by (rule markup_sound)
next
  assume sr: "StartRange_returns (TemplateExpr parts3 r3 sr3)"
    and m: "markup c3 (TemplateExpr parts3 r3 sr3) = Some s3"
  have "convertTemplate c3 parts3 = Returns (s3, None)"
    using markup_sound [OF m] by (simp add: convertStringPart_Template)
  then show "convertExpression c3 (TemplateExpr parts3 r3 sr3)
          = Returns (Str s3, IntMap (lineInfo (TemplateExpr parts3 r3 sr3)), None)"
    using sr by simp
next
  show "convertExpression (conv ''name = \"hello-${var.x}\"'')
        (TemplateExpr [LiteralValueExpr (StringVal ''hello-'') (span 8 14) (span 8 14),
                       ScopeTraversalExpr (span 16 21) (span 16 19)] (span 7 23) (span 8 14))
      = Returns (Str ''hello-${var.x}'',
                 IntMap [(''endIndex'', 15), (''line'', 1), (''startIndex'', 9)], None)"
    by code_simp
qed

theorem template_constant_or_markup_witness:
  "all_literal [LiteralValueExpr (StringVal ''hello-'') (span 8 14) (span 8 14),
                LiteralValueExpr (NumberIntVal 1) (span 16 17) (span 16 17)]
   \<and> TemplateExpr_Value (literal_values
        [LiteralValueExpr (StringVal ''hello-'') (span 8 14) (span 8 14),
         LiteralValueExpr (NumberIntVal 1) (span 16 17) (span 16 17)]) = Inr ''hello-1''
   \<and> convertExpression (conv ''name = \"hello-${1}\"'')
        (TemplateExpr [LiteralValueExpr (StringVal ''hello-'') (span 8 14) (span 8 14),
                       LiteralValueExpr (NumberIntVal 1) (span 16 17) (span 16 17)]
           (span 7 19) (span 8 14))
      = Returns (Str ''hello-1'',
                 IntMap [(''endIndex'', 15), (''line'', 1), (''startIndex'', 9)], None)
   \<and> markup (conv ''v = \"x${a ? \"b\" : \"c\"}y\"'')
        (ConditionalExpr (ScopeTraversalExpr (span 8 9) (span 8 9))
           (TemplateExpr [LiteralValueExpr (StringVal ''b'') (span 13 14) (span 13 14)]
              (span 12 15) (span 13 14))
           (TemplateExpr [LiteralValueExpr (StringVal ''c'') (span 19 20) (span 19 20)]
              (span 18 21) (span 19 20))
           (span 8 21) (span 8 9))
      = Some ''%{if a}b%{else}c%{endif}''
   \<and> convertStringPart (conv ''v = \"x${a ? \"b\" : \"c\"}y\"'')
        (ConditionalExpr (ScopeTraversalExpr (span 8 9) (span 8 9))
           (TemplateExpr [LiteralValueExpr (StringVal ''b'') (span 13 14) (span 13 14)]
              (span 12 15) (span 13 14))
           (TemplateExpr [LiteralValueExpr (StringVal ''c'') (span 19 20) (span 19 20)]
              (span 18 21) (span 19 20))
           (span 8 21) (span 8 9))
      = Returns (''%{if a}b%{else}c%{endif}'', None)
   \<and> StartRange_returns
        (TemplateExpr
           [TemplateJoinExpr
              (ForExpr [] ''i'' (ScopeTraversalExpr (span 16 18) (span 16 18))
                 (TemplateExpr [ScopeTraversalExpr (span 21 22) (span 21 22)]
                    (span 19 23) (span 21 22))
                 (span 5 32) (span 5 19))
              (span 5 32) (span 5 19)]
           (span 4 33) (span 5 19))
   \<and> markup (conv ''v = \"%{for i in xs}${i}%{endfor}\"'')
        (TemplateExpr
           [TemplateJoinExpr
              (ForExpr [] ''i'' (ScopeTraversalExpr (span 16 18) (span 16 18))
                 (TemplateExpr [ScopeTraversalExpr (span 21 22) (span 21 22)]
                    (span 19 23) (span 21 22))
                 (span 5 32) (span 5 19))
              (span 5 32) (span 5 19)]
           (span 4 33) (span 5 19))
      = Some ''%{for i in xs}${i}%{endfor}''
   \<and> convertExpression (conv ''v = \"%{for i in xs}${i}%{endfor}\"'')
        (TemplateExpr
           [TemplateJoinExpr
              (ForExpr [] ''i'' (ScopeTraversalExpr (span 16 18) (span 16 18))
                 (TemplateExpr [ScopeTraversalExpr (span 21 22) (span 21 22)]
                    (span 19 23) (span 21 22))
                 (span 5 32) (span 5 19))
              (span 5 32) (span 5 19)]
           (span 4 33) (span 5 19))
      = Returns (Str ''%{for i in xs}${i}%{endfor}'',
                 IntMap [(''endIndex'', 20), (''line'', 1), (''startIndex'', 6)], None)"
proof -
  let ?parts = "[LiteralValueExpr (StringVal ''hello-'') (span 8 14) (span 8 14),
                 LiteralValueExpr (NumberIntVal 1) (span 16 17) (span 16 17)]"
  let ?c2 = "conv ''v = \"x${a ? \"b\" : \"c\"}y\"''"
  let ?cond = "ConditionalExpr (ScopeTraversalExpr (span 8 9) (span 8 9))
           (TemplateExpr [LiteralValueExpr (StringVal ''b'') (span 13 14) (span 13 14)]
              (span 12 15) (span 13 14))
           (TemplateExpr [LiteralValueExpr (StringVal ''c'') (span 19 20) (span 19 20)]
              (span 18 21) (span 19 20))
           (span 8 21) (span 8 9)"
  let ?c3 = "conv ''v = \"%{for i in xs}${i}%{endfor}\"''"
  let ?parts3 = "[TemplateJoinExpr
              (ForExpr [] ''i'' (ScopeTraversalExpr (span 16 18) (span 16 18))
                 (TemplateExpr [ScopeTraversalExpr (span 21 22) (span 21 22)]
                    (span 19 23) (span 21 22))
                 (span 5 32) (span 5 19))
              (span 5 32) (span 5 19)]"
  have a: "all_literal ?parts" by (simp add: all_literal_def)
  have ne: "?parts \<noteq> []" by simp
  have b: "TemplateExpr_Value (literal_values ?parts) = Inr ''hello-1''" by code_simp
  have l: "lineInfo (TemplateExpr ?parts (span 7 19) (span 8 14))
             = [(''endIndex'', 15), (''line'', 1), (''startIndex'', 9)]"
    by code_simp
  have m2: "markup ?c2 ?cond = Some ''%{if a}b%{else}c%{endif}''" by code_simp
  have sr3: "StartRange_returns (TemplateExpr ?parts3 (span 4 33) (span 5 19))" by simp
  have m3: "markup ?c3 (TemplateExpr ?parts3 (span 4 33) (span 5 19))
              = Some ''%{for i in xs}${i}%{endfor}''"
    by code_simp
  have l3: "lineInfo (TemplateExpr ?parts3 (span 4 33) (span 5 19))
             = [(''endIndex'', 20), (''line'', 1), (''startIndex'', 6)]"
    by code_simp
  show ?thesis
    using a ne b l m2 sr3 m3 l3
      template_constant_or_markup [where parts = ?parts and s = "''hello-1''"
        and c = "conv ''name = \"hello-${1}\"''" and r = "span 7 19" and sr = "span 8 14"
        and ?c2.0 = ?c2 and ex = ?cond and ?s2.0 = "''%{if a}b%{else}c%{endif}''"
        and ?c3.0 = ?c3 and ?parts3.0 = ?parts3 and ?r3.0 = "span 4 33" and ?sr3.0 = "span 5 19"
        and ?s3.0 = "''%{for i in xs}${i}%{endfor}''"]
    by simp
qed

subsection \<open>C8: Range extraction\<close>

text \<open>
  C8, as stated, fails in its second half: when the range of a call already ends
  behind its closing parenthesis and the next byte is the closing parenthesis of an
  enclosing call, that byte is taken too.  In \<open>g(f(x))\<close> the bytes 2 to 6 are
  \<open>f(x)\<close>, and the extracted text is \<open>f(x))\<close>.
\<close>

theorem rangeSource_call_counterexample:
  "take 4 (drop 2 ''g(f(x))'') = ''f(x)''
   \<and> rangeSource (conv ''g(f(x))'') (span 2 6) = Returns ''f(x))''"
  by code_simp

text \<open>
  C8, amended: for every range with \<open>0 \<le> start \<le> end \<le> length\<close>, \<open>rangeSource\<close>
  returns the bytes from \<open>start\<close> to \<open>end\<close>, and one byte more if and only if there is
  a byte at \<open>end\<close> and it is \<open>)\<close>.  So a call's range that stops before its \<open>)\<close> is
  extracted with the \<open>)\<close> once; a range that already includes it is extracted as it
  is unless the byte behind it is another \<open>)\<close>.
\<close>

theorem rangeSource_extract:
  assumes "0 \<le> Byte (Start r)" and "Byte (Start r) \<le> Byte (End r)"
    and "Byte (End r) \<le> int (length (bytes c))"
  shows "\<exists>str. rangeSource c r = Returns str
     \<and> length str = nat (Byte (End r) - Byte (Start r))
          + (if Byte (End r) < int (length (bytes c)) \<and> bytes c ! nat (Byte (End r)) = CHR '')''
             then 1 else 0)
     \<and> (\<forall>i < length str. str ! i = bytes c ! (nat (Byte (Start r)) + i))"
proof (cases "Byte (End r) < int (length (bytes c)) \<and> bytes c ! nat (Byte (End r)) = CHR '')''")
  case True
  let ?str = "take (nat (Byte (End r) + 1 - Byte (Start r))) (drop (nat (Byte (Start r))) (bytes c))"
  have "rangeSource c r = Returns ?str"
    using True assms by (simp add: rangeSource_def Let_def)
  moreover have "length ?str = nat (Byte (End r) - Byte (Start r)) + 1"
    using True assms by (simp add: min_def) linarith
  moreover have "\<forall>i < length ?str. ?str ! i = bytes c ! (nat (Byte (Start r)) + i)"
    using assms by simp
  ultimately show ?thesis using True by simp
next
  case False
  let ?str = "take (nat (Byte (End r) - Byte (Start r))) (drop (nat (Byte (Start r))) (bytes c))"
  have "rangeSource c r = Returns ?str"
    using False assms by (auto simp add: rangeSource_def Let_def)
  moreover have "length ?str = nat (Byte (End r) - Byte (Start r))"
    using assms by (simp add: min_def) linarith
  moreover have "\<forall>i < length ?str. ?str ! i = bytes c ! (nat (Byte (Start r)) + i)"
    using assms by simp
  ultimately show ?thesis using False by simp
qed

theorem rangeSource_extract_witness:
  "0 \<le> Byte (Start (span 0 3)) \<and> Byte (Start (span 0 3)) \<le> Byte (End (span 0 3))
   \<and> Byte (End (span 0 3)) \<le> int (length (bytes (conv ''f(x)'')))
   \<and> rangeSource (conv ''f(x)'') (span 0 3) = Returns ''f(x)''
   \<and> (\<exists>str. rangeSource (conv ''f(x)'') (span 0 3) = Returns str \<and> length str = 4
        \<and> (\<forall>i < length str. str ! i = ''f(x)'' ! i))"
proof -
  have h: "0 \<le> Byte (Start (span 0 3))" "Byte (Start (span 0 3)) \<le> Byte (End (span 0 3))"
    "Byte (End (span 0 3)) \<le> int (length (bytes (conv ''f(x)'')))"
    by (simp_all add: span_def conv_def)
  have v: "rangeSource (conv ''f(x)'') (span 0 3) = Returns ''f(x)''"
    by code_simp
  show ?thesis
    using h v rangeSource_extract [OF h] by (simp add: span_def conv_def)
qed

subsection \<open>C9: The order of the attributes\<close>

text \<open>
  C9.  The attributes of a body are the entries of a Go map, visited in an order
  that changes from run to run.  Whenever the conversion of a body gives the two
  trees, the conversion with any other order of the attributes, at every level,
  gives the same two trees, and so the same serialisations (\<open>encoding/json\<close> writes
  the keys of a map in sorted order, the order of this representation).
\<close>

theorem conversion_order_independent:
  assumes "same_body b b'" and "distinct_attrs b"
    and "convertBody c b = Returns (Inr (cfg, lcfg))"
  shows "convertBody c b' = Returns (Inr (cfg, lcfg))"
  using reorder_aux(1) [of b c] assms by blast

theorem conversion_order_independent_witness:
  "same_body
     (Body [(''a'', \<lparr>Expr = LiteralValueExpr (NumberIntVal 1) (span 4 5) (span 4 5),
                     NameRange = span 0 1\<rparr>),
            (''b'', \<lparr>Expr = LiteralValueExpr (NumberIntVal 2)
                        \<lparr>Start = \<lparr>Line = 2, Column = 5, Byte = 10\<rparr>,
                         End = \<lparr>Line = 2, Column = 6, Byte = 11\<rparr>\<rparr>
                        \<lparr>Start = \<lparr>Line = 2, Column = 5, Byte = 10\<rparr>,
                         End = \<lparr>Line = 2, Column = 6, Byte = 11\<rparr>\<rparr>,
                     NameRange = \<lparr>Start = \<lparr>Line = 2, Column = 1, Byte = 6\<rparr>,
                                  End = \<lparr>Line = 2, Column = 2, Byte = 7\<rparr>\<rparr>\<rparr>)]
        [] \<lparr>Start = \<lparr>Line = 1, Column = 1, Byte = 0\<rparr>, End = \<lparr>Line = 2, Column = 6, Byte = 11\<rparr>\<rparr>)
     (Body [(''b'', \<lparr>Expr = LiteralValueExpr (NumberIntVal 2)
                        \<lparr>Start = \<lparr>Line = 2, Column = 5, Byte = 10\<rparr>,
                         End = \<lparr>Line = 2, Column = 6, Byte = 11\<rparr>\<rparr>
                        \<lparr>Start = \<lparr>Line = 2, Column = 5, Byte = 10\<rparr>,
                         End = \<lparr>Line = 2, Column = 6, Byte = 11\<rparr>\<rparr>,
                     NameRange = \<lparr>Start = \<lparr>Line = 2, Column = 1, Byte = 6\<rparr>,
                                  End = \<lparr>Line = 2, Column = 2, Byte = 7\<rparr>\<rparr>\<rparr>),
            (''a'', \<lparr>Expr = LiteralValueExpr (NumberIntVal 1) (span 4 5) (span 4 5),
                     NameRange = span 0 1\<rparr>)]
        [] \<lparr>Start = \<lparr>Line = 1, Column = 1, Byte = 0\<rparr>, End = \<lparr>Line = 2, Column = 6, Byte = 11\<rparr>\<rparr>)
   \<and> distinct_attrs
     (Body [(''a'', \<lparr>Expr = LiteralValueExpr (NumberIntVal 1) (span 4 5) (span 4 5),
                     NameRange = span 0 1\<rparr>),
            (''b'', \<lparr>Expr = LiteralValueExpr (NumberIntVal 2)
                        \<lparr>Start = \<lparr>Line = 2, Column = 5, Byte = 10\<rparr>,
                         End = \<lparr>Line = 2, Column = 6, Byte = 11\<rparr>\<rparr>
                        \<lparr>Start = \<lparr>Line = 2, Column = 5, Byte = 10\<rparr>,
                         End = \<lparr>Line = 2, Column = 6, Byte = 11\<rparr>\<rparr>,
                     NameRange = \<lparr>Start = \<lparr>Line = 2, Column = 1, Byte = 6\<rparr>,
                                  End = \<lparr>Line = 2, Column = 2, Byte = 7\<rparr>\<rparr>\<rparr>)]
        [] \<lparr>Start = \<lparr>Line = 1, Column = 1, Byte = 0\<rparr>, End = \<lparr>Line = 2, Column = 6, Byte = 11\<rparr>\<rparr>)
   \<and> convertBody (conv (''a = 1'' @ [CHR 0x0A] @ ''b = 2''))
     (Body [(''b'', \<lparr>Expr = LiteralValueExpr (NumberIntVal 2)
                        \<lparr>Start = \<lparr>Line = 2, Column = 5, Byte = 10\<rparr>,
                         End = \<lparr>Line = 2, Column = 6, Byte = 11\<rparr>\<rparr>
                        \<lparr>Start = \<lparr>Line = 2, Column = 5, Byte = 10\<rparr>,
                         End = \<lparr>Line = 2, Column = 6, Byte = 11\<rparr>\<rparr>,
                     NameRange = \<lparr>Start = \<lparr>Line = 2, Column = 1, Byte = 6\<rparr>,
                                  End = \<lparr>Line = 2, Column = 2, Byte = 7\<rparr>\<rparr>\<rparr>),
            (''a'', \<lparr>Expr = LiteralValueExpr (NumberIntVal 1) (span 4 5) (span 4 5),
                     NameRange = span 0 1\<rparr>)]
        [] \<lparr>Start = \<lparr>Line = 1, Column = 1, Byte = 0\<rparr>, End = \<lparr>Line = 2, Column = 6, Byte = 11\<rparr>\<rparr>)
     = Returns
        (Inr ([(''a'', SimpleJSONValue (NumberIntVal 1)),
               (''b'', SimpleJSONValue (NumberIntVal 2))],
              [(''a'', IntMap [(''__key__endIndex'', 2), (''__key__line'', 1),
                               (''__key__startIndex'', 1), (''endIndex'', 6), (''line'', 1),
                               (''startIndex'', 5)]),
               (''b'', IntMap [(''__key__endIndex'', 2), (''__key__line'', 2),
                               (''__key__startIndex'', 1), (''endIndex'', 6), (''line'', 2),
                               (''startIndex'', 5)]),
               (''endIndex'', GoInt 6), (''line'', GoInt 1), (''startIndex'', GoInt 1)]))"
proof -
  let ?a = "(''a'', \<lparr>Expr = LiteralValueExpr (NumberIntVal 1) (span 4 5) (span 4 5),
                     NameRange = span 0 1\<rparr>)"
  let ?b = "(''b'', \<lparr>Expr = LiteralValueExpr (NumberIntVal 2)
                        \<lparr>Start = \<lparr>Line = 2, Column = 5, Byte = 10\<rparr>,
                         End = \<lparr>Line = 2, Column = 6, Byte = 11\<rparr>\<rparr>
                        \<lparr>Start = \<lparr>Line = 2, Column = 5, Byte = 10\<rparr>,
                         End = \<lparr>Line = 2, Column = 6, Byte = 11\<rparr>\<rparr>,
                     NameRange = \<lparr>Start = \<lparr>Line = 2, Column = 1, Byte = 6\<rparr>,
                                  End = \<lparr>Line = 2, Column = 2, Byte = 7\<rparr>\<rparr>\<rparr>)"
  let ?r = "\<lparr>Start = \<lparr>Line = 1, Column = 1, Byte = 0\<rparr>, End = \<lparr>Line = 2, Column = 6, Byte = 11\<rparr>\<rparr>"
  let ?c = "conv (''a = 1'' @ [CHR 0x0A] @ ''b = 2'')"
  have s: "same_body (Body [?a, ?b] [] ?r) (Body [?b, ?a] [] ?r)" by simp
  have d: "distinct_attrs (Body [?a, ?b] [] ?r)" by simp
  have e: "convertBody ?c (Body [?a, ?b] [] ?r)
     = Returns
        (Inr ([(''a'', SimpleJSONValue (NumberIntVal 1)),
               (''b'', SimpleJSONValue (NumberIntVal 2))],
              [(''a'', IntMap [(''__key__endIndex'', 2), (''__key__line'', 1),
                               (''__key__startIndex'', 1), (''endIndex'', 6), (''line'', 1),
                               (''startIndex'', 5)]),
               (''b'', IntMap [(''__key__endIndex'', 2), (''__key__line'', 2),
                               (''__key__startIndex'', 1), (''endIndex'', 6), (''line'', 2),
                               (''startIndex'', 5)]),
               (''endIndex'', GoInt 6), (''line'', GoInt 1), (''startIndex'', GoInt 1)]))"
    by code_simp
  show ?thesis
    using s d conversion_order_independent [OF s d e] by blast
qed

subsection \<open>C10: The type assertions after convertBlock\<close>

text \<open>
  C10.  After \<open>convertBlock\<close> has returned without error on two new maps, the value
  map holds a \<open>jsonObj\<close> and the line map a \<open>lineObj\<close> under the type of the block:
  the two type assertions that follow the call in \<open>convertBody\<close> succeed.
\<close>

theorem convertBlock_fresh_type_entries:
  assumes "convertBlock c block [] [] = Returns (bcfg, blcfg, None)"
  shows "(\<exists>blockConfig. map_of bcfg (Type block) = Some (JsonObj blockConfig))
       \<and> (\<exists>lineCfg. map_of blcfg (Type block) = Some (LineObj lineCfg))"
  using convertBlock_fresh [OF assms] by auto

theorem convertBlock_fresh_type_entries_witness:
  "convertBlock (conv ''a \"b\" {}'') (Block ''a'' [''b''] (Body [] [] (span 6 8)) (span 0 1)) [] []
     = Returns ([(''a'', JsonObj [(''b'', JsonObj [])])],
                [(''a'', LineObj [(''b'', LineObj
                   [(''__key__endIndex'', GoInt 2), (''__key__line'', GoInt 1),
                    (''__key__startIndex'', GoInt 1), (''endIndex'', GoInt 9),
                    (''line'', GoInt 1), (''startIndex'', GoInt 7)])])], None)
   \<and> (\<exists>blockConfig. map_of [(''a'', JsonObj [(''b'', JsonObj [])])] ''a''
          = Some (JsonObj blockConfig))
   \<and> (\<exists>lineCfg. map_of [(''a'', LineObj [(''b'', LineObj
                   [(''__key__endIndex'', GoInt 2), (''__key__line'', GoInt 1),
                    (''__key__startIndex'', GoInt 1), (''endIndex'', GoInt 9),
                    (''line'', GoInt 1), (''startIndex'', GoInt 7)])])] ''a''
          = Some (LineObj lineCfg))"
proof -
  have a: "convertBlock (conv ''a \"b\" {}'')
       (Block ''a'' [''b''] (Body [] [] (span 6 8)) (span 0 1)) [] []
     = Returns ([(''a'', JsonObj [(''b'', JsonObj [])])],
                [(''a'', LineObj [(''b'', LineObj
                   [(''__key__endIndex'', GoInt 2), (''__key__line'', GoInt 1),
                    (''__key__startIndex'', GoInt 1), (''endIndex'', GoInt 9),
                    (''line'', GoInt 1), (''startIndex'', GoInt 7)])])], None)"
    by code_simp
  show ?thesis
    using a convertBlock_fresh_type_entries [OF a] by simp
qed

end
